theory Spec2Isabelle
  imports Main "HOL-Library.Sublist" "HOL-Library.Word"
begin

section \<open>Go strings and the regular expressions of database.go\<close>

text \<open>
  A Go string is a sequence of bytes; \<open>len\<close> counts bytes. It is modelled as
  \<^typ>\<open>string\<close>. The character classes are those of Go's \<open>regexp\<close>
  package, which are ASCII only: \<open>\w\<close> is \<open>[0-9A-Za-z_]\<close>, \<open>\d\<close> is
  \<open>[0-9]\<close> and \<open>\s\<close> is \<open>[\t\n\f\r ]\<close>.
\<close>

definition is_digit :: "char \<Rightarrow> bool" where
  "is_digit c = (48 \<le> (of_char c :: nat) \<and> (of_char c :: nat) \<le> 57)"

definition is_word :: "char \<Rightarrow> bool" where
  "is_word c =
     (is_digit c
      \<or> (65 \<le> (of_char c :: nat) \<and> (of_char c :: nat) \<le> 90)
      \<or> (97 \<le> (of_char c :: nat) \<and> (of_char c :: nat) \<le> 122)
      \<or> c = CHR ''_'')"

definition is_space :: "char \<Rightarrow> bool" where
  "is_space c = ((of_char c :: nat) \<in> {9, 10, 12, 13, 32})"

text \<open>
  The five patterns of database.go are sequences of single characters and of
  one-or-more repetitions of a character class, greedy (\<open>x+\<close>) or lazy (\<open>x+?\<close>).
\<close>

datatype atom = Ch char | WordCh | DigitCh | SpaceCh

datatype piece = One atom | PlusGreedy atom | PlusLazy atom

type_synonym regex = "piece list"

fun atom_ok :: "atom \<Rightarrow> char \<Rightarrow> bool" where
  "atom_ok (Ch x) c = (c = x)"
| "atom_ok WordCh c = is_word c"
| "atom_ok DigitCh c = is_digit c"
| "atom_ok SpaceCh c = is_space c"

text \<open>
  \<open>rmatch re s\<close> is the length of the match of \<open>re\<close> anchored at the start of \<open>s\<close>,
  chosen as Go chooses it (the match a backtracking search finds first): a greedy
  repetition tries one more character before it tries the rest of the pattern, a lazy
  one tries the rest of the pattern first.
\<close>

fun rmatch :: "regex \<Rightarrow> string \<Rightarrow> nat option" where
  "rmatch [] s = Some 0"
| "rmatch (One a # r) [] = None"
| "rmatch (One a # r) (c # cs) =
     (if atom_ok a c then map_option Suc (rmatch r cs) else None)"
| "rmatch (PlusGreedy a # r) [] = None"
| "rmatch (PlusGreedy a # r) (c # cs) =
     (if atom_ok a c
      then (case rmatch (PlusGreedy a # r) cs of
              Some n \<Rightarrow> Some (Suc n)
            | None \<Rightarrow> map_option Suc (rmatch r cs))
      else None)"
| "rmatch (PlusLazy a # r) [] = None"
| "rmatch (PlusLazy a # r) (c # cs) =
     (if atom_ok a c
      then (case rmatch r cs of
              Some n \<Rightarrow> Some (Suc n)
            | None \<Rightarrow> map_option Suc (rmatch (PlusLazy a # r) cs))
      else None)"

definition lit :: "string \<Rightarrow> regex" where
  "lit s = map (\<lambda>c. One (Ch c)) s"

text \<open>\<open>Regexp.Find\<close>: the text of the leftmost match, or nil.\<close>

fun Find :: "regex \<Rightarrow> string \<Rightarrow> string option" where
  "Find re [] = map_option (\<lambda>n. []) (rmatch re [])"
| "Find re (c # cs) =
     (case rmatch re (c # cs) of
        Some n \<Rightarrow> Some (take n (c # cs))
      | None \<Rightarrow> Find re cs)"

text \<open>
  \<open>Regexp.ReplaceAllString\<close> for a pattern that matches no empty string and a
  replacement without \<open>$\<close>: the matches are found left to right and do not overlap.
  The counter is the number of characters of the current match still to be skipped.
\<close>

fun replace_from :: "regex \<Rightarrow> string \<Rightarrow> nat \<Rightarrow> string \<Rightarrow> string" where
  "replace_from re repl k [] = []"
| "replace_from re repl (Suc k) (c # cs) = replace_from re repl k cs"
| "replace_from re repl 0 (c # cs) =
     (case rmatch re (c # cs) of
        Some (Suc n) \<Rightarrow> repl @ replace_from re repl n cs
      | _ \<Rightarrow> c # replace_from re repl 0 cs)"

definition ReplaceAllString :: "regex \<Rightarrow> string \<Rightarrow> string \<Rightarrow> string" where
  "ReplaceAllString re src repl = replace_from re repl 0 src"

text \<open>\<open>strings.Replace(s, old, new, 1)\<close> for a non-empty \<open>old\<close>.\<close>

fun Replace1 :: "string \<Rightarrow> string \<Rightarrow> string \<Rightarrow> string" where
  "Replace1 [] old new = []"
| "Replace1 (c # cs) old new =
     (if prefix old (c # cs) then new @ drop (length old) (c # cs)
      else c # Replace1 cs old new)"

text \<open>
  \<open>strings.SplitAfterN(s, sep, 2)\<close> for a non-empty \<open>sep\<close>: one piece when \<open>sep\<close>
  does not occur, else the text up to and including the first \<open>sep\<close>, and the rest.
\<close>

fun SplitAfter2 :: "string \<Rightarrow> string \<Rightarrow> string list" where
  "SplitAfter2 [] sep = [[]]"
| "SplitAfter2 (c # cs) sep =
     (if prefix sep (c # cs) then [sep, drop (length sep) (c # cs)]
      else (case SplitAfter2 cs sep of
              [a, b] \<Rightarrow> [c # a, b]
            | _ \<Rightarrow> [c # cs]))"

section \<open>database.go: schemes\<close>

text \<open>The pattern \<open>\w+?:\/\/\<close> of \<open>GetScheme\<close>.\<close>

definition scheme_re :: regex where
  "scheme_re = PlusLazy WordCh # lit ''://''"

definition GetScheme :: "string \<Rightarrow> string" where
  "GetScheme path =
     (case Find scheme_re path of
        None \<Rightarrow> ''''
      | Some m \<Rightarrow> Replace1 m ''://'' '''')"

definition SplitPathFromScheme :: "string \<Rightarrow> string" where
  "SplitPathFromScheme path =
     (let splitPath = SplitAfter2 path ''://''
      in if length splitPath \<noteq> 2 then path else splitPath ! 1)"

definition HasScheme :: "string \<Rightarrow> bool" where
  "HasScheme path = (length (GetScheme path) > 1)"

section \<open>database.go: the dialect translation\<close>

definition compatMySql :: "string \<Rightarrow> string" where
  "compatMySql query0 =
     (let query1 = ReplaceAllString [One (Ch (CHR ''?'')), PlusGreedy DigitCh] query0 ''?'';
          query2 = ReplaceAllString
                     (lit ''INSERT'' @ [PlusGreedy SpaceCh] @ lit ''OR'' @ [PlusGreedy SpaceCh]
                        @ lit ''IGNORE'' @ [PlusGreedy SpaceCh])
                     query1 ''INSERT IGNORE '';
          query3 = ReplaceAllString
                     (lit ''INSERT'' @ [PlusGreedy SpaceCh] @ lit ''OR'' @ [PlusGreedy SpaceCh]
                        @ lit ''REPLACE'' @ [PlusGreedy SpaceCh])
                     query2 ''REPLACE '';
          query4 = ReplaceAllString (lit ''=='') query3 ''=''
      in query4)"

section \<open>database/sql as the layer sees it\<close>

text \<open>
  Go's \<open>uint\<close> is a 64-bit word. A value stored in a column or bound to a placeholder
  is an integer, a text or NULL.
\<close>

type_synonym go_uint = "64 word"

datatype sqlval = IntV int | TextV string | NullV

datatype errno = ENOENT | EACCES | ENOTDIR | EIO

datatype sqlfault =
    NoSuchTable string
  | NoSuchColumn string
  | ConstraintFailed string
  | NotNullFailed string
  | DatatypeMismatch string
  | DatabaseFull
  | ArgumentCount
  | SyntaxError

text \<open>
  Errors are values. \<open>ErrorString\<close> is \<open>errors.New\<close> or a \<open>fmt.Errorf\<close> without
  a verb; \<open>Errorf msg err\<close> is \<open>fmt.Errorf(msg + ": %v", err)\<close>. The three
  \<open>Database...Error\<close> structs are declared elsewhere in the package; their fields
  are those the composite literals of database.go give them.
\<close>

datatype error =
    ErrorString string
  | Errorf string error
  | DatabaseNotFoundError string
  | DatabaseAccessError string error
  | DatabaseTransactionError string error
  | PathError string string errno
  | SqlError sqlfault
  | ScanError string

text \<open>\<open>os.IsNotExist\<close>.\<close>

fun IsNotExist :: "error \<Rightarrow> bool" where
  "IsNotExist (PathError operation path e) = (e = ENOENT)"
| "IsNotExist _ = False"

text \<open>\<open>sql.Result\<close>: the layer reads \<open>RowsAffected()\<close> only.\<close>

datatype Result = Result (RowsAffected: "error + int")

text \<open>
  \<open>sql.Rows\<close>: the rows not yet read, and the error \<open>rows.Err()\<close> reports.
  \<open>Next\<close> gives the row the cursor moves to, or \<open>None\<close> where Go's \<open>Next\<close>
  returns false.
\<close>

record Rows =
  pending :: "sqlval list list"
  lasterr :: "error option"

definition Next :: "Rows \<Rightarrow> sqlval list option" where
  "Next rows = (case pending rows of [] \<Rightarrow> None | r # rest \<Rightarrow> Some r)"

definition Err :: "Rows \<Rightarrow> error option" where
  "Err rows = lasterr rows"

text \<open>
  \<open>strconv.ParseUint(s, 10, 64)\<close>, which \<open>Scan\<close> uses to convert a column into a
  \<open>*uint\<close>: decimal digits only, no sign, at least one digit, and a value below
  \<open>2^64\<close>.
\<close>

definition digits_value :: "string \<Rightarrow> nat" where
  "digits_value s = fold (\<lambda>c a. 10 * a + ((of_char c :: nat) - 48)) s 0"

definition ParseUint :: "string \<Rightarrow> go_uint option" where
  "ParseUint s =
     (if s \<noteq> [] \<and> list_all is_digit s \<and> digits_value s < 2 ^ 64
      then Some (of_nat (digits_value s)) else None)"

text \<open>
  The conversion of one column into a \<open>*uint\<close> destination: an integer is formatted
  in decimal and parsed back (so a negative one fails), a text is parsed, NULL fails.
\<close>

fun convert_uint :: "sqlval \<Rightarrow> go_uint option" where
  "convert_uint (IntV i) = (if 0 \<le> i \<and> i < 2 ^ 64 then Some (word_of_int i) else None)"
| "convert_uint (TextV s) = ParseUint s"
| "convert_uint NullV = None"

text \<open>
  \<open>rows.Scan(dest...)\<close> into \<open>*uint\<close> destinations. The second argument holds the
  current values of the destination variables, the result their values afterwards.
  Go checks the number of destinations first, then converts column by column and stops
  at the first column that fails: the destinations before it are already assigned.
\<close>

fun scan_columns :: "sqlval list \<Rightarrow> go_uint list \<Rightarrow> error option \<times> go_uint list" where
  "scan_columns (v # vs) (d # ds) =
     (case convert_uint v of
        None \<Rightarrow> (Some (ScanError ''sql: Scan error: converting driver.Value''), d # ds)
      | Some u \<Rightarrow> (case scan_columns vs ds of (e, ds') \<Rightarrow> (e, u # ds')))"
| "scan_columns _ ds = (None, ds)"

definition Scan :: "sqlval list \<Rightarrow> go_uint list \<Rightarrow> error option \<times> go_uint list" where
  "Scan row dest =
     (if length dest \<noteq> length row
      then (Some (ScanError ''sql: expected destination arguments in Scan''), dest)
      else scan_columns row dest)"

text \<open>
  A \<open>uint\<close> passed as a statement argument reaches the driver as an \<open>int64\<close>:
  database/sql converts it with \<open>int64(rv.Uint())\<close>, so the integer bound is the
  two's complement reading of the word, negative from \<open>2^63\<close> on.
\<close>

definition arg_uint :: "go_uint \<Rightarrow> sqlval" where
  "arg_uint u = IntV (sint u)"

section \<open>database.go: transactions\<close>

text \<open>
  \<open>Tx\<close> is the struct of database.go: the driver's transaction \<open>tx.tx\<close>, given by
  what its \<open>Exec\<close> and \<open>Query\<close> do to a store of type \<open>'db\<close>, and the driver name
  (the one \<open>Database.Begin\<close> gets from \<open>GetDriverName\<close>, which inspects the type of
  the driver). A statement that fails leaves the store as it was, and a query does not
  change it. The calls of the logger are left out here and below: they return nothing.
\<close>

record 'db Tx =
  tx_Exec :: "string \<Rightarrow> sqlval list \<Rightarrow> 'db \<Rightarrow> error + (Result \<times> 'db)"
  tx_Query :: "string \<Rightarrow> sqlval list \<Rightarrow> 'db \<Rightarrow> error + Rows"
  driver :: string

definition finalizeQuery :: "'db Tx \<Rightarrow> string \<Rightarrow> string" where
  "finalizeQuery tx query =
     (if driver tx = ''mysql'' then compatMySql query else query)"

definition Exec :: "'db Tx \<Rightarrow> string \<Rightarrow> sqlval list \<Rightarrow> 'db \<Rightarrow> error + (Result \<times> 'db)" where
  "Exec tx query args db = tx_Exec tx (finalizeQuery tx query) args db"

definition Query :: "'db Tx \<Rightarrow> string \<Rightarrow> sqlval list \<Rightarrow> 'db \<Rightarrow> error + Rows" where
  "Query tx query args db = tx_Query tx (finalizeQuery tx query) args db"

section \<open>schema.go: the schema version\<close>

text \<open>
  \<open>schemaVersion\<close> embeds \<open>common.Version\<close> (\<open>Major\<close>, \<open>Minor\<close>, \<open>Patch\<close>) and adds
  \<open>Revision\<close>; all four are \<open>uint\<close>. Go's \<open>==\<close> on the struct compares the four
  fields, as equality of the record does.
\<close>

record schemaVersion =
  Major :: go_uint
  Minor :: go_uint
  Patch :: go_uint
  Revision :: go_uint

definition latestSchemaVersion :: schemaVersion where
  "latestSchemaVersion = \<lparr>Major = 0, Minor = 7, Patch = 0, Revision = 1\<rparr>"

definition sql_currentSchemaVersion :: string where
  "sql_currentSchemaVersion = ''\<newline>SELECT *\<newline>FROM version''"

text \<open>
  The list \<open>vars\<close> holds the variables \<open>major, minor, patch, revision\<close>, all zero at
  first. The second \<open>Scan\<close> has the first three of them as destinations.
\<close>

definition currentSchemaVersion :: "'db Tx \<Rightarrow> 'db \<Rightarrow> schemaVersion" where
  "currentSchemaVersion tx db =
     (case Query tx sql_currentSchemaVersion [] db of
        Inl err \<Rightarrow> \<lparr>Major = 0, Minor = 0, Patch = 0, Revision = 0\<rparr>
      | Inr rows \<Rightarrow>
          (let vars0 = [0, 0, 0, 0];
               vars =
                 (case Next rows of
                    None \<Rightarrow> vars0
                  | Some row \<Rightarrow>
                      if Err rows = None
                      then (case Scan row vars0 of
                              (None, vars1) \<Rightarrow> vars1
                            | (Some err, vars1) \<Rightarrow>
                                snd (Scan row (take 3 vars1)) @ drop 3 vars1)
                      else vars0)
           in \<lparr>Major = vars ! 0, Minor = vars ! 1, Patch = vars ! 2, Revision = vars ! 3\<rparr>))"

definition sql_insertSchemaVersion :: string where
  "sql_insertSchemaVersion =
     ''\<newline>INSERT INTO version (major, minor, patch, revision)\<newline>VALUES (?, ?, ?, ?)''"

text \<open>
  A function of schema.go that returns \<open>error\<close> returns here the error (\<open>None\<close> for
  nil) and the store it leaves.
\<close>

definition insertSchemaVersion :: "'db Tx \<Rightarrow> schemaVersion \<Rightarrow> 'db \<Rightarrow> error option \<times> 'db" where
  "insertSchemaVersion tx version db =
     (case Exec tx sql_insertSchemaVersion
             [arg_uint (Major version), arg_uint (Minor version),
              arg_uint (Patch version), arg_uint (Revision version)] db of
        Inl err \<Rightarrow> (Some (Errorf ''could not update schema version'' err), db)
      | Inr (result, db') \<Rightarrow>
          (case RowsAffected result of
             Inl err \<Rightarrow> (Some err, db')
           | Inr rowsAffected \<Rightarrow>
               if rowsAffected \<noteq> 1
               then (Some (ErrorString
                       ''version could not be inserted: expected exactly one row to be affected''),
                     db')
               else (None, db')))"

definition sql_updateSchemaVersion :: string where
  "sql_updateSchemaVersion =
     ''\<newline>UPDATE version SET major = ?, minor = ?, patch = ?, revision = ?''"

definition updateSchemaVersion :: "'db Tx \<Rightarrow> schemaVersion \<Rightarrow> 'db \<Rightarrow> error option \<times> 'db" where
  "updateSchemaVersion tx version db =
     (let cur = currentSchemaVersion tx db
      in if cur = version then (None, db)
         else
           (case Exec tx sql_updateSchemaVersion
                   [arg_uint (Major version), arg_uint (Minor version),
                    arg_uint (Patch version), arg_uint (Revision version)] db of
              Inl err \<Rightarrow> (Some (Errorf ''could not update schema version'' err), db)
            | Inr (result, db') \<Rightarrow>
                (case RowsAffected result of
                   Inl err \<Rightarrow> (Some err, db')
                 | Inr rowsAffected \<Rightarrow>
                     if rowsAffected \<noteq> 1
                     then (Some (ErrorString
                             ''version could not be updated: expected exactly one row to be affected''),
                           db')
                     else (None, db'))))"

section \<open>schema.go: the tables\<close>

text \<open>
  \<open>exec_stmt\<close> is the step every table function repeats:
  \<open>if _, err := tx.Exec(sql); err != nil { return err }\<close>. \<open>and_then\<close> is the step
  of \<open>createSchema\<close>: \<open>if err := f(tx); err != nil { return err }\<close>.
\<close>

definition exec_stmt :: "'db Tx \<Rightarrow> string \<Rightarrow> 'db \<Rightarrow> error option \<times> 'db" where
  "exec_stmt tx sql db =
     (case Exec tx sql [] db of
        Inl err \<Rightarrow> (Some err, db)
      | Inr (result, db') \<Rightarrow> (None, db'))"

definition and_then ::
  "('db \<Rightarrow> error option \<times> 'db) \<Rightarrow> ('db \<Rightarrow> error option \<times> 'db) \<Rightarrow> 'db \<Rightarrow> error option \<times> 'db" where
  "and_then f g db =
     (case f db of
        (Some err, db') \<Rightarrow> (Some err, db')
      | (None, db') \<Rightarrow> g db')"

definition sql_createTagTable :: string where
  "sql_createTagTable =
     ''\<newline>CREATE TABLE IF NOT EXISTS tag (\<newline>    id INTEGER PRIMARY KEY,\<newline>    name VARCHAR(255) NOT NULL\<newline>)''"

definition sql_createTagIndex :: string where
  "sql_createTagIndex = ''\<newline>CREATE INDEX IF NOT EXISTS idx_tag_name\<newline>ON tag(name)''"

definition createTagTable :: "'db Tx \<Rightarrow> 'db \<Rightarrow> error option \<times> 'db" where
  "createTagTable tx =
     and_then (exec_stmt tx sql_createTagTable) (exec_stmt tx sql_createTagIndex)"

definition sql_createFileTable :: string where
  "sql_createFileTable =
     ''\<newline>CREATE TABLE IF NOT EXISTS file (\<newline>    id INTEGER PRIMARY KEY,\<newline>    directory VARCHAR(255) NOT NULL,\<newline>    name VARCHAR(255) NOT NULL,\<newline>    fingerprint VARCHAR(255) NOT NULL,\<newline>    mod_time DATETIME NOT NULL,\<newline>    size INTEGER NOT NULL,\<newline>    is_dir BOOLEAN NOT NULL,\<newline>    CONSTRAINT con_file_path UNIQUE (directory, name)\<newline>)''"

definition sql_createFileIndex :: string where
  "sql_createFileIndex =
     ''\<newline>CREATE INDEX IF NOT EXISTS idx_file_fingerprint\<newline>ON file(fingerprint)''"

definition createFileTable :: "'db Tx \<Rightarrow> 'db \<Rightarrow> error option \<times> 'db" where
  "createFileTable tx =
     and_then (exec_stmt tx sql_createFileTable) (exec_stmt tx sql_createFileIndex)"

definition sql_createValueTable :: string where
  "sql_createValueTable =
     ''\<newline>CREATE TABLE IF NOT EXISTS `value` (\<newline>    id INTEGER PRIMARY KEY,\<newline>    name VARCHAR(255) NOT NULL,\<newline>    CONSTRAINT con_value_name UNIQUE (name)\<newline>)''"

definition createValueTable :: "'db Tx \<Rightarrow> 'db \<Rightarrow> error option \<times> 'db" where
  "createValueTable tx = exec_stmt tx sql_createValueTable"

definition sql_createFileTagTable :: string where
  "sql_createFileTagTable =
     ''\<newline>CREATE TABLE IF NOT EXISTS file_tag (\<newline>    file_id INTEGER NOT NULL,\<newline>    tag_id INTEGER NOT NULL,\<newline>    value_id INTEGER NOT NULL,\<newline>    PRIMARY KEY (file_id, tag_id, value_id),\<newline>    FOREIGN KEY (file_id) REFERENCES file(id),\<newline>    FOREIGN KEY (tag_id) REFERENCES tag(id),\<newline>    FOREIGN KEY (value_id) REFERENCES `value`(id)\<newline>)''"

definition sql_createFileTagIndex1 :: string where
  "sql_createFileTagIndex1 =
     ''\<newline>CREATE INDEX IF NOT EXISTS idx_file_tag_file_id\<newline>ON file_tag(file_id)''"

definition sql_createFileTagIndex2 :: string where
  "sql_createFileTagIndex2 =
     ''\<newline>CREATE INDEX IF NOT EXISTS idx_file_tag_tag_id\<newline>ON file_tag(tag_id)''"

definition sql_createFileTagIndex3 :: string where
  "sql_createFileTagIndex3 =
     ''\<newline>CREATE INDEX IF NOT EXISTS idx_file_tag_value_id\<newline>ON file_tag(value_id)''"

definition createFileTagTable :: "'db Tx \<Rightarrow> 'db \<Rightarrow> error option \<times> 'db" where
  "createFileTagTable tx =
     and_then (exec_stmt tx sql_createFileTagTable)
       (and_then (exec_stmt tx sql_createFileTagIndex1)
          (and_then (exec_stmt tx sql_createFileTagIndex2)
             (exec_stmt tx sql_createFileTagIndex3)))"

definition sql_createImplicationTable :: string where
  "sql_createImplicationTable =
     ''\<newline>CREATE TABLE IF NOT EXISTS implication (\<newline>    tag_id INTEGER NOT NULL,\<newline>    value_id INTEGER NOT NULL,\<newline>    implied_tag_id INTEGER NOT NULL,\<newline>    implied_value_id INTEGER NOT NULL,\<newline>    PRIMARY KEY (tag_id, value_id, implied_tag_id, implied_value_id)\<newline>)''"

definition createImplicationTable :: "'db Tx \<Rightarrow> 'db \<Rightarrow> error option \<times> 'db" where
  "createImplicationTable tx = exec_stmt tx sql_createImplicationTable"

definition sql_createQueryTable :: string where
  "sql_createQueryTable =
     ''\<newline>CREATE TABLE IF NOT EXISTS query (\<newline>    text VARCHAR(255) PRIMARY KEY\<newline>)''"

definition createQueryTable :: "'db Tx \<Rightarrow> 'db \<Rightarrow> error option \<times> 'db" where
  "createQueryTable tx = exec_stmt tx sql_createQueryTable"

definition sql_createSettingTable :: string where
  "sql_createSettingTable =
     ''\<newline>CREATE TABLE IF NOT EXISTS setting (\<newline>    name VARCHAR(255) PRIMARY KEY,\<newline>    value VARCHAR(255) NOT NULL\<newline>)''"

definition createSettingTable :: "'db Tx \<Rightarrow> 'db \<Rightarrow> error option \<times> 'db" where
  "createSettingTable tx = exec_stmt tx sql_createSettingTable"

definition sql_createVersionTable :: string where
  "sql_createVersionTable =
     ''\<newline>CREATE TABLE IF NOT EXISTS version (\<newline>    major INT NOT NULL,\<newline>    minor INT NOT NULL,\<newline>    patch INT NOT NULL,\<newline>    revision INT NOT NULL,\<newline>    PRIMARY KEY (major, minor, patch, revision)\<newline>)''"

definition createVersionTable :: "'db Tx \<Rightarrow> 'db \<Rightarrow> error option \<times> 'db" where
  "createVersionTable tx = exec_stmt tx sql_createVersionTable"

definition sql_insertDefaultValue :: string where
  "sql_insertDefaultValue = ''\<newline>INSERT INTO `value` (id, name)\<newline>VALUES (?, ?)''"

definition insertDefaultValue :: "'db Tx \<Rightarrow> 'db \<Rightarrow> error option \<times> 'db" where
  "insertDefaultValue tx db =
     (case Exec tx sql_insertDefaultValue [IntV 0, TextV ''dummy''] db of
        Inl err \<Rightarrow> (Some (Errorf ''could not insert default value'' err), db)
      | Inr (result, db') \<Rightarrow>
          (case RowsAffected result of
             Inl err \<Rightarrow> (Some err, db')
           | Inr rowsAffected \<Rightarrow>
               if rowsAffected \<noteq> 1
               then (Some (ErrorString
                       ''default value could not be inserted: expected exactly one row to be affected''),
                     db')
               else (None, db')))"

definition createSchema :: "'db Tx \<Rightarrow> 'db \<Rightarrow> error option \<times> 'db" where
  "createSchema tx =
     and_then (createTagTable tx)
       (and_then (createFileTable tx)
          (and_then (createValueTable tx)
             (and_then (createFileTagTable tx)
                (and_then (createImplicationTable tx)
                   (and_then (createQueryTable tx)
                      (and_then (createSettingTable tx)
                         (and_then (createVersionTable tx)
                            (and_then (insertDefaultValue tx)
                               (insertSchemaVersion tx latestSchemaVersion)))))))))"

section \<open>The relational engine behind a transaction\<close>

text \<open>
  The engine is not part of the repository; this is the standard reading of the SQL
  that schema.go sends to it, and where the dialects differ (NULL in a key, the range
  of an integer column) it is the reading of the embedded engine: an integer column
  holds any \<open>int64\<close>. A table has its columns (name and declared type) in
  order, its NOT NULL columns, its keys (the column lists of PRIMARY KEY, first, and
  of UNIQUE), its foreign keys (recorded, not enforced: no statement of schema.go
  inserts into a table that has one) and its rows in the order of insertion. An index
  is recorded with its table and columns and constrains nothing. Values are stored as
  they are bound: the conversion of a value to the declared type of its column is not
  modelled.
\<close>

record table_state =
  columns :: "(string \<times> string) list"
  notnull :: "string list"
  keys :: "string list list"
  foreign_keys :: "(string \<times> string \<times> string) list"
  table_rows :: "sqlval list list"

record database =
  tables :: "string \<rightharpoonup> table_state"
  indexes :: "string \<rightharpoonup> (string \<times> string list)"

datatype stmt =
    CreateTableIfNotExists string "(string \<times> string) list" "string list" "string list list"
      "(string \<times> string \<times> string) list"
  | CreateIndexIfNotExists string string "string list"
  | InsertInto string "string list"
  | UpdateSet string "string list"
  | SelectStar string

definition column_names :: "table_state \<Rightarrow> string list" where
  "column_names t = map fst (columns t)"

text \<open>The value of column \<open>c\<close> in a row laid out as \<open>cols\<close>; NULL for a column not listed.\<close>

fun cell :: "string list \<Rightarrow> sqlval list \<Rightarrow> string \<Rightarrow> sqlval" where
  "cell (c' # cols) (v # vs) c = (if c = c' then v else cell cols vs c)"
| "cell _ _ c = NullV"

definition project :: "string list \<Rightarrow> sqlval list \<Rightarrow> string list \<Rightarrow> sqlval list" where
  "project cols row key = map (cell cols row) key"

text \<open>
  The first key of a table is its primary key. When it is a single column declared
  \<open>INTEGER\<close>, that column is the row id of the table.
\<close>

definition rowid_column :: "table_state \<Rightarrow> string option" where
  "rowid_column t =
     (case keys t of
        [c] # ks \<Rightarrow> if map_of (columns t) c = Some ''INTEGER'' then Some c else None
      | _ \<Rightarrow> None)"

text \<open>The integers among the values of column \<open>c\<close>, and the largest of a list of integers.\<close>

fun int_values :: "sqlval list \<Rightarrow> int list" where
  "int_values [] = []"
| "int_values (IntV i # vs) = i # int_values vs"
| "int_values (v # vs) = int_values vs"

definition column_ints :: "table_state \<Rightarrow> string \<Rightarrow> int list" where
  "column_ints t c = int_values (map (\<lambda>r. cell (column_names t) r c) (table_rows t))"

text \<open>
  The row as the engine stores it: a NULL in the row id column is replaced by one more
  than the largest row id of the table, by 1 when the table is empty. (When the largest
  is \<open>2^63 - 1\<close> the engine tries unused ids at random; the model gives the failure
  that the engine gives when it finds none.)
\<close>

definition assign_rowid :: "table_state \<Rightarrow> sqlval list \<Rightarrow> sqlfault + sqlval list" where
  "assign_rowid t row =
     (case rowid_column t of
        None \<Rightarrow> Inr row
      | Some c \<Rightarrow>
          if cell (column_names t) row c \<noteq> NullV then Inr row
          else (case column_ints t c of
                  [] \<Rightarrow> Inr (map (\<lambda>c'. if c' = c then IntV 1 else cell (column_names t) row c')
                                (column_names t))
                | i # is \<Rightarrow>
                    if fold max is i = 2 ^ 63 - 1 then Inl DatabaseFull
                    else Inr (map (\<lambda>c'. if c' = c then IntV (fold max is i + 1)
                                          else cell (column_names t) row c')
                                  (column_names t))))"

text \<open>
  The rows satisfy the constraints of the table: no NULL in a NOT NULL column; an
  integer in the row id column; and for every key, no two rows that have no NULL in
  the columns of the key agree on all of them.
\<close>

definition notnull_ok :: "table_state \<Rightarrow> sqlval list list \<Rightarrow> bool" where
  "notnull_ok t rs =
     list_all (\<lambda>r. list_all (\<lambda>c. cell (column_names t) r c \<noteq> NullV) (notnull t)) rs"

definition rowid_ok :: "table_state \<Rightarrow> sqlval list list \<Rightarrow> bool" where
  "rowid_ok t rs =
     (case rowid_column t of
        None \<Rightarrow> True
      | Some c \<Rightarrow>
          list_all (\<lambda>r. case cell (column_names t) r c of IntV i \<Rightarrow> True | _ \<Rightarrow> False) rs)"

definition keys_ok :: "table_state \<Rightarrow> sqlval list list \<Rightarrow> bool" where
  "keys_ok t rs =
     list_all (\<lambda>k. distinct (filter (\<lambda>p. NullV \<notin> set p)
                                (map (\<lambda>r. project (column_names t) r k) rs)))
              (keys t)"

definition rows_ok :: "table_state \<Rightarrow> sqlval list list \<Rightarrow> bool" where
  "rows_ok t rs = (notnull_ok t rs \<and> rowid_ok t rs \<and> keys_ok t rs)"

definition constraint_error :: "table_state \<Rightarrow> sqlval list list \<Rightarrow> string \<Rightarrow> error" where
  "constraint_error t rs name =
     (if \<not> notnull_ok t rs then SqlError (NotNullFailed name)
      else if \<not> rowid_ok t rs then SqlError (DatatypeMismatch name)
      else SqlError (ConstraintFailed name))"

definition run_exec :: "stmt \<Rightarrow> sqlval list \<Rightarrow> database \<Rightarrow> error + (Result \<times> database)" where
  "run_exec st args db =
     (case st of
        CreateTableIfNotExists name cols nn ks fks \<Rightarrow>
          (case tables db name of
             Some t \<Rightarrow> Inr (Result (Inr 0), db)
           | None \<Rightarrow>
               Inr (Result (Inr 0),
                    db\<lparr>tables := (tables db)(name \<mapsto>
                         \<lparr>columns = cols, notnull = nn, keys = ks, foreign_keys = fks,
                          table_rows = []\<rparr>)\<rparr>))
      | CreateIndexIfNotExists idx name cols \<Rightarrow>
          (case indexes db idx of
             Some i \<Rightarrow> Inr (Result (Inr 0), db)
           | None \<Rightarrow>
               (case tables db name of
                  None \<Rightarrow> Inl (SqlError (NoSuchTable name))
                | Some t \<Rightarrow>
                    if set cols \<subseteq> set (column_names t)
                    then Inr (Result (Inr 0), db\<lparr>indexes := (indexes db)(idx \<mapsto> (name, cols))\<rparr>)
                    else Inl (SqlError (NoSuchColumn name))))
      | InsertInto name cols \<Rightarrow>
          (case tables db name of
             None \<Rightarrow> Inl (SqlError (NoSuchTable name))
           | Some t \<Rightarrow>
               if length args \<noteq> length cols then Inl (SqlError ArgumentCount)
               else if \<not> (distinct cols \<and> set cols \<subseteq> set (column_names t))
               then Inl (SqlError (NoSuchColumn name))
               else
                 (case assign_rowid t (map (cell cols args) (column_names t)) of
                    Inl fault \<Rightarrow> Inl (SqlError fault)
                  | Inr row \<Rightarrow>
                      (let rs = table_rows t @ [row]
                       in if rows_ok t rs
                          then Inr (Result (Inr 1),
                                    db\<lparr>tables := (tables db)(name \<mapsto> t\<lparr>table_rows := rs\<rparr>)\<rparr>)
                          else Inl (constraint_error t rs name))))
      | UpdateSet name cols \<Rightarrow>
          (case tables db name of
             None \<Rightarrow> Inl (SqlError (NoSuchTable name))
           | Some t \<Rightarrow>
               if length args \<noteq> length cols then Inl (SqlError ArgumentCount)
               else if \<not> (distinct cols \<and> set cols \<subseteq> set (column_names t))
               then Inl (SqlError (NoSuchColumn name))
               else
                 (let rs = map (\<lambda>r. map (\<lambda>c. if c \<in> set cols then cell cols args c
                                                 else cell (column_names t) r c)
                                         (column_names t))
                               (table_rows t)
                  in if rows_ok t rs
                     then Inr (Result (Inr (int (length rs))),
                               db\<lparr>tables := (tables db)(name \<mapsto> t\<lparr>table_rows := rs\<rparr>)\<rparr>)
                     else Inl (constraint_error t rs name)))
      | SelectStar name \<Rightarrow> Inl (SqlError SyntaxError))"

definition run_query :: "stmt \<Rightarrow> sqlval list \<Rightarrow> database \<Rightarrow> error + Rows" where
  "run_query st args db =
     (case st of
        SelectStar name \<Rightarrow>
          (case tables db name of
             None \<Rightarrow> Inl (SqlError (NoSuchTable name))
           | Some t \<Rightarrow> Inr \<lparr>pending = table_rows t, lasterr = None\<rparr>)
      | _ \<Rightarrow> Inl (SqlError SyntaxError))"

text \<open>The statements of schema.go, read as SQL. Any other text is a syntax error.\<close>

definition stmt_createTagTable :: stmt where
  "stmt_createTagTable =
     CreateTableIfNotExists ''tag''
       [(''id'', ''INTEGER''), (''name'', ''VARCHAR(255)'')]
       [''name''] [[''id'']] []"

definition stmt_createTagIndex :: stmt where
  "stmt_createTagIndex =
     CreateIndexIfNotExists ''idx_tag_name'' ''tag'' [''name'']"

definition stmt_createFileTable :: stmt where
  "stmt_createFileTable =
     CreateTableIfNotExists ''file''
       [(''id'', ''INTEGER''), (''directory'', ''VARCHAR(255)''), (''name'', ''VARCHAR(255)''),
       (''fingerprint'', ''VARCHAR(255)''), (''mod_time'', ''DATETIME''),
       (''size'', ''INTEGER''), (''is_dir'', ''BOOLEAN'')]
       [''directory'', ''name'', ''fingerprint'', ''mod_time'', ''size'', ''is_dir'']
       [[''id''], [''directory'', ''name'']] []"

definition stmt_createFileIndex :: stmt where
  "stmt_createFileIndex =
     CreateIndexIfNotExists ''idx_file_fingerprint'' ''file'' [''fingerprint'']"

definition stmt_createValueTable :: stmt where
  "stmt_createValueTable =
     CreateTableIfNotExists ''value''
       [(''id'', ''INTEGER''), (''name'', ''VARCHAR(255)'')]
       [''name''] [[''id''], [''name'']] []"

definition stmt_createFileTagTable :: stmt where
  "stmt_createFileTagTable =
     CreateTableIfNotExists ''file_tag''
       [(''file_id'', ''INTEGER''), (''tag_id'', ''INTEGER''), (''value_id'', ''INTEGER'')]
       [''file_id'', ''tag_id'', ''value_id'']
       [[''file_id'', ''tag_id'', ''value_id'']]
       [(''file_id'', ''file'', ''id''), (''tag_id'', ''tag'', ''id''),
       (''value_id'', ''value'', ''id'')]"

definition stmt_createFileTagIndex1 :: stmt where
  "stmt_createFileTagIndex1 =
     CreateIndexIfNotExists ''idx_file_tag_file_id'' ''file_tag'' [''file_id'']"

definition stmt_createFileTagIndex2 :: stmt where
  "stmt_createFileTagIndex2 =
     CreateIndexIfNotExists ''idx_file_tag_tag_id'' ''file_tag'' [''tag_id'']"

definition stmt_createFileTagIndex3 :: stmt where
  "stmt_createFileTagIndex3 =
     CreateIndexIfNotExists ''idx_file_tag_value_id'' ''file_tag'' [''value_id'']"

definition stmt_createImplicationTable :: stmt where
  "stmt_createImplicationTable =
     CreateTableIfNotExists ''implication''
       [(''tag_id'', ''INTEGER''), (''value_id'', ''INTEGER''),
       (''implied_tag_id'', ''INTEGER''), (''implied_value_id'', ''INTEGER'')]
       [''tag_id'', ''value_id'', ''implied_tag_id'', ''implied_value_id'']
       [[''tag_id'', ''value_id'', ''implied_tag_id'', ''implied_value_id'']] []"

definition stmt_createQueryTable :: stmt where
  "stmt_createQueryTable =
     CreateTableIfNotExists ''query'' [(''text'', ''VARCHAR(255)'')] [] [[''text'']] []"

definition stmt_createSettingTable :: stmt where
  "stmt_createSettingTable =
     CreateTableIfNotExists ''setting''
       [(''name'', ''VARCHAR(255)''), (''value'', ''VARCHAR(255)'')]
       [''value''] [[''name'']] []"

definition stmt_createVersionTable :: stmt where
  "stmt_createVersionTable =
     CreateTableIfNotExists ''version''
       [(''major'', ''INT''), (''minor'', ''INT''), (''patch'', ''INT''), (''revision'', ''INT'')]
       [''major'', ''minor'', ''patch'', ''revision'']
       [[''major'', ''minor'', ''patch'', ''revision'']] []"

definition stmt_insertDefaultValue :: stmt where
  "stmt_insertDefaultValue =
     InsertInto ''value'' [''id'', ''name'']"

definition stmt_insertSchemaVersion :: stmt where
  "stmt_insertSchemaVersion =
     InsertInto ''version'' [''major'', ''minor'', ''patch'', ''revision'']"

definition stmt_updateSchemaVersion :: stmt where
  "stmt_updateSchemaVersion =
     UpdateSet ''version'' [''major'', ''minor'', ''patch'', ''revision'']"

definition stmt_currentSchemaVersion :: stmt where
  "stmt_currentSchemaVersion =
     SelectStar ''version''"

definition statements :: "(string \<times> stmt) list" where
  "statements =
     [(sql_createTagTable, stmt_createTagTable),
      (sql_createTagIndex, stmt_createTagIndex),
      (sql_createFileTable, stmt_createFileTable),
      (sql_createFileIndex, stmt_createFileIndex),
      (sql_createValueTable, stmt_createValueTable),
      (sql_createFileTagTable, stmt_createFileTagTable),
      (sql_createFileTagIndex1, stmt_createFileTagIndex1),
      (sql_createFileTagIndex2, stmt_createFileTagIndex2),
      (sql_createFileTagIndex3, stmt_createFileTagIndex3),
      (sql_createImplicationTable, stmt_createImplicationTable),
      (sql_createQueryTable, stmt_createQueryTable),
      (sql_createSettingTable, stmt_createSettingTable),
      (sql_createVersionTable, stmt_createVersionTable),
      (sql_insertDefaultValue, stmt_insertDefaultValue),
      (sql_insertSchemaVersion, stmt_insertSchemaVersion),
      (sql_updateSchemaVersion, stmt_updateSchemaVersion),
      (sql_currentSchemaVersion, stmt_currentSchemaVersion)]"

definition sql_parse :: "string \<Rightarrow> stmt option" where
  "sql_parse q = map_of statements q"

text \<open>A transaction of driver \<open>d\<close> on this engine.\<close>

definition engine_tx :: "string \<Rightarrow> database Tx" where
  "engine_tx d =
     \<lparr>tx_Exec = (\<lambda>q args db.
         case sql_parse q of
           None \<Rightarrow> Inl (SqlError SyntaxError)
         | Some st \<Rightarrow> run_exec st args db),
      tx_Query = (\<lambda>q args db.
         case sql_parse q of
           None \<Rightarrow> Inl (SqlError SyntaxError)
         | Some st \<Rightarrow> run_query st args db),
      driver = d\<rparr>"

text \<open>The fresh store: no table, no index.\<close>

definition fresh :: database where
  "fresh = \<lparr>tables = Map.empty, indexes = Map.empty\<rparr>"

section \<open>database.go: opening a database\<close>

text \<open>
  What \<open>CreateAt\<close> and \<open>OpenAt\<close> call outside this file, as functions on the state
  \<open>'w\<close> of the world (filesystem and servers): \<open>os.Stat\<close> (which changes nothing;
  the file information is dropped, as the code drops it), \<open>sql.Open\<close> with the
  driver name and the address, \<open>Database.Begin\<close>, \<open>upgrade\<close> (another file of the
  package), \<open>Tx.Commit\<close> and \<open>Database.Close\<close>. \<open>'c\<close> is a connection, \<open>'t\<close> a
  transaction.
\<close>

record ('c, 't, 'w) sys =
  os_Stat :: "string \<Rightarrow> 'w \<Rightarrow> error option"
  sql_Open :: "string \<Rightarrow> string \<Rightarrow> 'w \<Rightarrow> (error + 'c) \<times> 'w"
  db_Begin :: "'c \<Rightarrow> 'w \<Rightarrow> (error + 't) \<times> 'w"
  upgrade :: "'t \<Rightarrow> 'w \<Rightarrow> error option \<times> 'w"
  tx_Commit :: "'t \<Rightarrow> 'w \<Rightarrow> error option \<times> 'w"
  db_Close :: "'c \<Rightarrow> 'w \<Rightarrow> error option \<times> 'w"

definition OpenDB :: "('c, 't, 'w, 'z) sys_scheme \<Rightarrow> string \<Rightarrow> 'w \<Rightarrow> (error + 'c) \<times> 'w" where
  "OpenDB sys path w =
     (if HasScheme path
      then (let scheme = GetScheme path;
                dbPath = SplitPathFromScheme path
            in sql_Open sys scheme dbPath w)
      else sql_Open sys ''sqlite3'' path w)"

text \<open>The deferred \<open>db.Close()\<close> of \<open>CreateAt\<close> runs on every return after it; its error is dropped.\<close>

definition CreateAt :: "('c, 't, 'w, 'z) sys_scheme \<Rightarrow> string \<Rightarrow> 'w \<Rightarrow> error option \<times> 'w" where
  "CreateAt sys path w =
     (case OpenDB sys path w of
        (Inl err, w1) \<Rightarrow> (Some (DatabaseAccessError path err), w1)
      | (Inr db, w1) \<Rightarrow>
          (case (case db_Begin sys db w1 of
                   (Inl err, w2) \<Rightarrow> (Some (DatabaseTransactionError path err), w2)
                 | (Inr tx, w2) \<Rightarrow>
                     (case upgrade sys tx w2 of
                        (Some err, w3) \<Rightarrow> (Some err, w3)
                      | (None, w3) \<Rightarrow>
                          (case tx_Commit sys tx w3 of
                             (Some err, w4) \<Rightarrow> (Some (DatabaseTransactionError path err), w4)
                           | (None, w4) \<Rightarrow> (None, w4)))) of
             (result, w5) \<Rightarrow> (result, snd (db_Close sys db w5))))"

definition OpenAt :: "('c, 't, 'w, 'z) sys_scheme \<Rightarrow> string \<Rightarrow> 'w \<Rightarrow> (error + 'c) \<times> 'w" where
  "OpenAt sys path w =
     (let stat = os_Stat sys path w
      in if stat \<noteq> None \<and> \<not> HasScheme path
         then (if IsNotExist (the stat) then (Inl (DatabaseNotFoundError path), w)
               else (Inl (DatabaseAccessError path (the stat)), w))
         else
           (case OpenDB sys path w of
              (Inl err, w1) \<Rightarrow> (Inl (DatabaseAccessError path err), w1)
            | (Inr db, w1) \<Rightarrow>
                (case db_Begin sys db w1 of
                   (Inl err, w2) \<Rightarrow> (Inl (DatabaseTransactionError path err), w2)
                 | (Inr tx, w2) \<Rightarrow>
                     (case upgrade sys tx w2 of
                        (Some err, w3) \<Rightarrow> (Inl err, w3)
                      | (None, w3) \<Rightarrow>
                          (case tx_Commit sys tx w3 of
                             (Some err, w4) \<Rightarrow> (Inl (DatabaseTransactionError path err), w4)
                           | (None, w4) \<Rightarrow> (Inr db, w4))))))"

section \<open>The init command\<close>

text \<open>
  What the command calls besides the database package: \<open>os.Getwd\<close>, \<open>os.Mkdir\<close>,
  \<open>filepath.Join\<close>, \<open>storage.CreateAt\<close>, \<open>database.UpdateSetting\<close> (of which the
  error alone is used) and the \<open>Error()\<close> text that \<open>%v\<close> prints for an error.
  \<open>Options\<close> maps the name of an option that was given to its argument.
\<close>

record ('c, 't, 'w) cli_sys = "('c, 't, 'w) sys" +
  os_Getwd :: "'w \<Rightarrow> error + string"
  os_Mkdir :: "string \<Rightarrow> 'w \<Rightarrow> error option \<times> 'w"
  filepath_Join :: "string \<Rightarrow> string \<Rightarrow> string"
  storage_CreateAt :: "string \<Rightarrow> 'w \<Rightarrow> error option \<times> 'w"
  database_UpdateSetting :: "'t \<Rightarrow> string \<Rightarrow> string \<Rightarrow> 'w \<Rightarrow> error option \<times> 'w"
  error_text :: "error \<Rightarrow> string"

type_synonym Options = "string \<rightharpoonup> string"

text \<open>The error of \<open>os.Mkdir\<close> is dropped, as the code drops it.\<close>

definition initializeDatabase ::
  "('c, 't, 'w) cli_sys \<Rightarrow> string \<Rightarrow> 'w \<Rightarrow> error option \<times> 'w" where
  "initializeDatabase sys path w =
     (if \<not> HasScheme path
      then (let tmsuPath = filepath_Join sys path ''.tmsu'';
                w1 = snd (os_Mkdir sys tmsuPath w);
                dbPath = filepath_Join sys tmsuPath ''db''
            in storage_CreateAt sys dbPath w1)
      else storage_CreateAt sys path w)"

text \<open>
  The two deferred calls of \<open>insertRootPath\<close> run last registered first:
  \<open>db.Close()\<close>, then \<open>tx.Commit()\<close>; their errors are dropped.
\<close>

definition insertRootPath ::
  "('c, 't, 'w) cli_sys \<Rightarrow> Options \<Rightarrow> string \<Rightarrow> 'w \<Rightarrow> error option \<times> 'w" where
  "insertRootPath sys options path w =
     (if HasScheme path \<and> options ''--root-path'' \<noteq> None
      then (case OpenAt sys path w of
              (Inl err, w1) \<Rightarrow> (Some err, w1)
            | (Inr db, w1) \<Rightarrow>
                (case db_Begin sys db w1 of
                   (Inl err, w2) \<Rightarrow> (Some err, w2)
                 | (Inr tx, w2) \<Rightarrow>
                     (case database_UpdateSetting sys tx ''rootPath''
                             (the (options ''--root-path'')) w2 of
                        (err, w3) \<Rightarrow>
                          (err, snd (tx_Commit sys tx (snd (db_Close sys db w3)))))))
      else (None, w))"

text \<open>
  The body of the loop of \<open>initExec\<close> for one path: the warnings it appends (none or
  one) and the world it leaves.
\<close>

definition init_path ::
  "('c, 't, 'w) cli_sys \<Rightarrow> Options \<Rightarrow> string \<Rightarrow> 'w \<Rightarrow> string list \<times> 'w" where
  "init_path sys options path w =
     (case initializeDatabase sys path w of
        (Some err, w1) \<Rightarrow>
          ([path @ '': could not initialize database: '' @ error_text sys err], w1)
      | (None, w1) \<Rightarrow>
          (case insertRootPath sys options path w1 of
             (Some err, w2) \<Rightarrow>
               ([path @ '': could not initialize database with root path: ''
                   @ error_text sys err], w2)
           | (None, w2) \<Rightarrow> ([], w2)))"

fun init_loop ::
  "('c, 't, 'w) cli_sys \<Rightarrow> Options \<Rightarrow> string list \<Rightarrow> string list \<Rightarrow> 'w \<Rightarrow> string list \<times> 'w" where
  "init_loop sys options [] warnings w = (warnings, w)"
| "init_loop sys options (path # paths) warnings w =
     (case init_path sys options path w of
        (new, w1) \<Rightarrow> init_loop sys options paths (warnings @ new) w1)"

text \<open>\<open>initExec\<close> returns the error, the warnings and the world it leaves.\<close>

definition initExec ::
  "('c, 't, 'w) cli_sys \<Rightarrow> Options \<Rightarrow> string list \<Rightarrow> string \<Rightarrow> 'w
     \<Rightarrow> (error option \<times> string list) \<times> 'w" where
  "initExec sys options args databasePath w =
     (if HasScheme databasePath
      then (case init_loop sys options [databasePath] [] w of
              (warnings, w') \<Rightarrow> ((None, warnings), w'))
      else if length args = 0
      then (case os_Getwd sys w of
              Inl err \<Rightarrow> ((Some (Errorf ''could not identify working directory'' err), []), w)
            | Inr workingDirectory \<Rightarrow>
                (case init_loop sys options [workingDirectory] [] w of
                   (warnings, w') \<Rightarrow> ((None, warnings), w')))
      else (case init_loop sys options args [] w of
              (warnings, w') \<Rightarrow> ((None, warnings), w')))"

section \<open>Notions the properties are stated with\<close>

text \<open>
  The store that \<open>createSchema\<close> leaves when it runs on the fresh store, and the table
  that \<open>createVersionTable\<close> creates, before any row is inserted.
\<close>

definition schema_store :: database where
  "schema_store = snd (createSchema (engine_tx ''sqlite3'') fresh)"

definition empty_version_table :: table_state where
  "empty_version_table =
     \<lparr>columns = [(''major'', ''INT''), (''minor'', ''INT''), (''patch'', ''INT''),
                 (''revision'', ''INT'')],
      notnull = [''major'', ''minor'', ''patch'', ''revision''],
      keys = [[''major'', ''minor'', ''patch'', ''revision'']],
      foreign_keys = [],
      table_rows = []\<rparr>"

text \<open>The rows of a table of the store, when the table exists.\<close>

definition rows_of :: "string \<Rightarrow> database \<Rightarrow> sqlval list list option" where
  "rows_of name db = map_option table_rows (tables db name)"

text \<open>
  The store after \<open>INSERT INTO name (cols) VALUES (?, ...)\<close> with the arguments
  \<open>args\<close>, or \<open>None\<close> when the engine rejects the row.
\<close>

definition insert_row ::
  "string \<Rightarrow> string list \<Rightarrow> sqlval list \<Rightarrow> database \<Rightarrow> database option" where
  "insert_row name cols args db =
     (case run_exec (InsertInto name cols) args db of
        Inl err \<Rightarrow> None
      | Inr (result, db') \<Rightarrow> Some db')"

text \<open>The version that \<open>currentSchemaVersion\<close> returns when it reads nothing: \<open>schemaVersion{}\<close>.\<close>

definition zeroVersion :: schemaVersion where
  "zeroVersion = \<lparr>Major = 0, Minor = 0, Patch = 0, Revision = 0\<rparr>"

text \<open>
  A store from before schema 0.7.0-1, whose version table has no revision column (the
  case the comment in \<open>currentSchemaVersion\<close> names), here at version 0.6.0.
\<close>

definition legacy_store :: database where
  "legacy_store =
     \<lparr>tables = [''version'' \<mapsto>
        \<lparr>columns = [(''major'', ''INT''), (''minor'', ''INT''), (''patch'', ''INT'')],
         notnull = [''major'', ''minor'', ''patch''],
         keys = [],
         foreign_keys = [],
         table_rows = [[IntV 0, IntV 6, IntV 0]]\<rparr>],
      indexes = Map.empty\<rparr>"

text \<open>The arguments that \<open>insertSchemaVersion\<close> and \<open>updateSchemaVersion\<close> bind.\<close>

definition version_args :: "schemaVersion \<Rightarrow> sqlval list" where
  "version_args version =
     [arg_uint (Major version), arg_uint (Minor version),
      arg_uint (Patch version), arg_uint (Revision version)]"

text \<open>
  The error that the initialization of one path meets, in \<open>initializeDatabase\<close> or,
  when that succeeds, in \<open>insertRootPath\<close>; and, for a list of paths, the world in
  which each of them is processed, in order.
\<close>

definition init_error ::
  "('c, 't, 'w) cli_sys \<Rightarrow> Options \<Rightarrow> string \<Rightarrow> 'w \<Rightarrow> error option" where
  "init_error sys options path w =
     (case initializeDatabase sys path w of
        (Some err, w1) \<Rightarrow> Some err
      | (None, w1) \<Rightarrow> fst (insertRootPath sys options path w1))"

fun worlds_before ::
  "('c, 't, 'w) cli_sys \<Rightarrow> Options \<Rightarrow> string list \<Rightarrow> 'w \<Rightarrow> 'w list" where
  "worlds_before sys options [] w = []"
| "worlds_before sys options (path # paths) w =
     w # worlds_before sys options paths (snd (init_path sys options path w))"

text \<open>
  A small world to run the commands in. Its state is the list of the database files
  that exist. Nothing can be created under \<open>/ro/\<close>; the drivers \<open>sqlite3\<close> and
  \<open>mysql\<close> are registered; a connection and a transaction are named by their address.
\<close>

definition demo_sys :: "(string, string, string list) cli_sys" where
  "demo_sys =
     \<lparr>os_Stat = (\<lambda>p w. if p \<in> set w then None else Some (PathError ''stat'' p ENOENT)),
      sql_Open = (\<lambda>d a w. if d = ''sqlite3'' \<or> d = ''mysql'' then (Inr a, w)
                           else (Inl (ErrorString ''sql: unknown driver''), w)),
      db_Begin = (\<lambda>c w. (Inr c, w)),
      upgrade = (\<lambda>t w. (None, w)),
      tx_Commit = (\<lambda>t w. (None, w)),
      db_Close = (\<lambda>c w. (None, w)),
      os_Getwd = (\<lambda>w. Inr ''/home/u''),
      os_Mkdir = (\<lambda>p w. (None, w)),
      filepath_Join = (\<lambda>a b. a @ ''/'' @ b),
      storage_CreateAt = (\<lambda>p w. if prefix ''/ro/'' p
                                   then (Some (DatabaseAccessError p (PathError ''open'' p EACCES)), w)
                                   else (None, w @ [p])),
      database_UpdateSetting = (\<lambda>t k v w. (None, w)),
      error_text = (\<lambda>e. ''permission denied'')\<rparr>"

text \<open>
  For the scheme of a path. \<open>contains_scheme2 s\<close>: somewhere in \<open>s\<close>, two word
  characters are immediately followed by \<open>://\<close>. \<open>has_word_sep s\<close>: somewhere in
  \<open>s\<close>, a word character is immediately followed by \<open>://\<close>.
\<close>

fun contains_scheme2 :: "string \<Rightarrow> bool" where
  "contains_scheme2 (a # b # cs) =
     ((is_word a \<and> is_word b \<and> prefix ''://'' cs) \<or> contains_scheme2 (b # cs))"
| "contains_scheme2 _ = False"

fun has_word_sep :: "string \<Rightarrow> bool" where
  "has_word_sep (c # cs) = ((is_word c \<and> prefix ''://'' cs) \<or> has_word_sep cs)"
| "has_word_sep [] = False"

text \<open>
  For the dialect translation: what each of its four rules looks for at the start of a
  text, as the length of the occurrence. \<open>marker_at\<close>: a \<open>?\<close> and the digits after
  it, at least one. \<open>keywords_at\<close>: the given keywords in order, each followed by
  white space, at least one character and as far as it goes. \<open>literal_at\<close>: the
  given text. \<open>rewrite_from occ repl 0 s\<close> replaces the occurrences in \<open>s\<close> by
  \<open>repl\<close>, from left to right and without overlap.
\<close>

definition marker_at :: "string \<Rightarrow> nat option" where
  "marker_at s =
     (case s of
        [] \<Rightarrow> None
      | c # cs \<Rightarrow>
          if c = CHR ''?'' \<and> takeWhile is_digit cs \<noteq> []
          then Some (Suc (length (takeWhile is_digit cs))) else None)"

definition keyword_at :: "string \<Rightarrow> string \<Rightarrow> nat option" where
  "keyword_at kw s =
     (if prefix kw s \<and> takeWhile is_space (drop (length kw) s) \<noteq> []
      then Some (length kw + length (takeWhile is_space (drop (length kw) s)))
      else None)"

fun keywords_at :: "string list \<Rightarrow> string \<Rightarrow> nat option" where
  "keywords_at [] s = Some 0"
| "keywords_at (kw # kws) s =
     (case keyword_at kw s of
        None \<Rightarrow> None
      | Some n \<Rightarrow> map_option (\<lambda>m. n + m) (keywords_at kws (drop n s)))"

definition literal_at :: "string \<Rightarrow> string \<Rightarrow> nat option" where
  "literal_at k s = (if prefix k s then Some (length k) else None)"

fun rewrite_from :: "(string \<Rightarrow> nat option) \<Rightarrow> string \<Rightarrow> nat \<Rightarrow> string \<Rightarrow> string" where
  "rewrite_from occ repl k [] = []"
| "rewrite_from occ repl (Suc k) (c # cs) = rewrite_from occ repl k cs"
| "rewrite_from occ repl 0 (c # cs) =
     (case occ (c # cs) of
        Some (Suc n) \<Rightarrow> repl @ rewrite_from occ repl n cs
      | _ \<Rightarrow> c # rewrite_from occ repl 0 cs)"

definition rewritten :: "string \<Rightarrow> string \<Rightarrow> string" where
  "rewritten d q =
     (if d = ''mysql''
      then rewrite_from (literal_at ''=='') ''='' 0
             (rewrite_from (keywords_at [''INSERT'', ''OR'', ''REPLACE'']) ''REPLACE '' 0
                (rewrite_from (keywords_at [''INSERT'', ''OR'', ''IGNORE'']) ''INSERT IGNORE '' 0
                   (rewrite_from marker_at ''?'' 0 q)))
      else q)"

text \<open>
  A transaction of driver \<open>d\<close> that executes nothing and records the statements it is
  handed, the last one first.
\<close>

definition log_tx :: "string \<Rightarrow> string list Tx" where
  "log_tx d =
     \<lparr>tx_Exec = (\<lambda>q args db. Inr (Result (Inr 0), q # db)),
      tx_Query = (\<lambda>q args db. Inr \<lparr>pending = [[TextV q]], lasterr = None\<rparr>),
      driver = d\<rparr>"

section \<open>The pattern of GetScheme\<close>

text \<open>
  At the start of a text the pattern \<open>\w+?:\/\/\<close> matches exactly when the run of
  word characters there is not empty and is followed by \<open>://\<close>; the match is that
  run and the separator. \<open>GetScheme\<close> takes the leftmost match.
\<close>

lemmas scheme_eval = HasScheme_def GetScheme_def scheme_re_def lit_def is_word_def is_digit_def

lemma not_word_sep_chars [simp]: "\<not> is_word CHR '':''" "\<not> is_word CHR ''/''"
  by (simp_all add: is_word_def is_digit_def)

lemma rmatch_lit:
  "rmatch (lit k @ r) s =
     (if prefix k s then map_option (\<lambda>n. length k + n) (rmatch r (drop (length k) s)) else None)"
proof (induction k arbitrary: s)
  case Nil
  then show ?case by (cases "rmatch r s") (simp_all add: lit_def)
next
  case (Cons x k)
  have l: "lit (x # k) = One (Ch x) # lit k" by (simp add: lit_def)
  show ?case
  proof (cases s)
    case Nil
    then show ?thesis by (simp add: l)
  next
    case (Cons c cs)
    then show ?thesis using Cons.IH [of cs]
      by (auto simp: l option.map_comp comp_def)
  qed
qed

lemma rmatch_sep: "rmatch (lit ''://'') s = (if prefix ''://'' s then Some 3 else None)"
  using rmatch_lit [of "''://''" "[]" s] by simp

lemma rmatch_scheme_Cons:
  "rmatch scheme_re (c # cs) =
     (if is_word c then (if prefix ''://'' cs then Some 4 else map_option Suc (rmatch scheme_re cs))
      else None)"
  by (simp add: scheme_re_def rmatch_sep)

lemma rmatch_scheme_Nil: "rmatch scheme_re [] = None"
  by (simp add: scheme_re_def)

lemma rmatch_scheme:
  "rmatch scheme_re s =
     (if takeWhile is_word s \<noteq> [] \<and> prefix ''://'' (dropWhile is_word s)
      then Some (length (takeWhile is_word s) + 3) else None)"
proof (induction s)
  case Nil
  then show ?case by (simp add: rmatch_scheme_Nil)
next
  case (Cons c cs)
  show ?case
  proof (cases "is_word c")
    case False
    then show ?thesis by (simp add: rmatch_scheme_Cons)
  next
    case True
    show ?thesis
    proof (cases "prefix ''://'' cs")
      case True
      then obtain v where "cs = ''://'' @ v" by (auto simp: prefix_def)
      with \<open>is_word c\<close> show ?thesis by (simp add: rmatch_scheme_Cons)
    next
      case False
      with True Cons show ?thesis
        by (cases cs) (auto simp: rmatch_scheme_Cons)
    qed
  qed
qed

lemma Replace1_scheme:
  "list_all is_word w \<Longrightarrow> Replace1 (w @ ''://'') ''://'' [] = w"
  by (induction w) auto

lemma has_word_sep_append:
  "is_word c \<Longrightarrow> has_word_sep (p @ c # ''://'' @ q)"
  by (induction p) auto

text \<open>Where the pattern matches at the start, the scheme is the run of word characters there.\<close>

lemma GetScheme_match:
  assumes "rmatch scheme_re s = Some n"
  shows "GetScheme s = takeWhile is_word s"
proof -
  let ?w = "takeWhile is_word s"
  from assms have w: "?w \<noteq> []" and p: "prefix ''://'' (dropWhile is_word s)"
    and n: "n = length ?w + 3"
    by (auto simp: rmatch_scheme split: if_splits)
  from p obtain v where v: "dropWhile is_word s = ''://'' @ v" by (auto simp: prefix_def)
  have s: "s = ?w @ ''://'' @ v" using v takeWhile_dropWhile_id [of is_word s] by simp
  have "take n s = ?w @ ''://''"
    by (subst s) (simp add: n)
  moreover have "list_all is_word ?w"
    by (simp add: list_all_iff) (meson set_takeWhileD)
  moreover from w have "s \<noteq> []" by auto
  ultimately show ?thesis using assms
    by (cases s) (simp_all add: GetScheme_def Replace1_scheme)
qed

lemma GetScheme_no_match:
  "rmatch scheme_re (c # cs) = None \<Longrightarrow> GetScheme (c # cs) = GetScheme cs"
  by (simp add: GetScheme_def)

lemma takeWhile_word_run:
  "list_all is_word w \<Longrightarrow> takeWhile is_word (w @ CHR '':'' # r) = w"
  by (induction w) auto

lemma dropWhile_word_run:
  "list_all is_word w \<Longrightarrow> dropWhile is_word (w @ CHR '':'' # r) = CHR '':'' # r"
  by (induction w) auto

lemma rmatch_scheme_run:
  "list_all is_word w \<Longrightarrow> w \<noteq> [] \<Longrightarrow> rmatch scheme_re (w @ ''://'' @ v) = Some (length w + 3)"
  by (simp add: rmatch_scheme takeWhile_word_run dropWhile_word_run)

lemma prefix_sep_before_word:
  assumes "prefix ''://'' (u @ w @ r)" and "list_all is_word w" and "w \<noteq> []"
  shows "prefix ''://'' u"
proof -
  from assms(2,3) obtain x w' where w: "w = x # w'" and x: "is_word x" by (cases w) auto
  from x have ne: "x \<noteq> CHR '':''" "x \<noteq> CHR ''/''" by auto
  show ?thesis
  proof (cases u)
    case Nil
    with assms(1) w ne show ?thesis by simp
  next
    case u1: (Cons a u')
    show ?thesis
    proof (cases u')
      case Nil
      with assms(1) w ne u1 show ?thesis by simp
    next
      case u2: (Cons b u'')
      show ?thesis
      proof (cases u'')
        case Nil
        with assms(1) w ne u1 u2 show ?thesis by simp
      next
        case (Cons d u3)
        with assms(1) u1 u2 show ?thesis by auto
      qed
    qed
  qed
qed

lemma match_before_sep_is_word:
  assumes "list_all is_word w" and "w \<noteq> []"
  shows "rmatch scheme_re (u @ w @ ''://'' @ v) = Some n \<Longrightarrow> \<not> has_word_sep u
         \<Longrightarrow> list_all is_word u"
proof (induction u arbitrary: n)
  case Nil
  then show ?case by simp
next
  case (Cons c u)
  from Cons.prems(1) have c: "is_word c" and
    d: "prefix ''://'' (u @ w @ ''://'' @ v) \<or> rmatch scheme_re (u @ w @ ''://'' @ v) \<noteq> None"
    by (auto simp: rmatch_scheme_Cons split: if_splits)
  from Cons.prems(2) c have nu: "\<not> has_word_sep u" and np: "\<not> prefix ''://'' u" by auto
  from np prefix_sep_before_word [OF _ assms, of u "''://'' @ v"]
  have "\<not> prefix ''://'' (u @ w @ ''://'' @ v)" by blast
  with d obtain m where "rmatch scheme_re (u @ w @ ''://'' @ v) = Some m" by auto
  from Cons.IH [OF this nu] c show ?case by simp
qed

text \<open>The scheme where a run of word characters before the separator follows a part without one.\<close>

lemma GetScheme_decomposed:
  assumes "\<not> has_word_sep u" and "list_all is_word w" and "w \<noteq> []"
  shows "\<exists>x. GetScheme (u @ w @ ''://'' @ v) = x @ w"
  using assms(1)
proof (induction u)
  case Nil
  have "GetScheme (w @ ''://'' @ v) = takeWhile is_word (w @ ''://'' @ v)"
    using GetScheme_match [OF rmatch_scheme_run [OF assms(2,3)]] .
  then have "GetScheme ([] @ w @ ''://'' @ v) = [] @ w"
    using assms(2) by (simp add: takeWhile_word_run)
  then show ?case by blast
next
  case (Cons c u)
  let ?s = "(c # u) @ w @ ''://'' @ v"
  from Cons.prems have nu: "\<not> has_word_sep u" by auto
  show ?case
  proof (cases "rmatch scheme_re ?s")
    case None
    then have "GetScheme ?s = GetScheme (u @ w @ ''://'' @ v)"
      using GetScheme_no_match [of c "u @ w @ ''://'' @ v"] by simp
    with Cons.IH [OF nu] show ?thesis by auto
  next
    case (Some n)
    then have g: "GetScheme ?s = takeWhile is_word ?s" by (rule GetScheme_match)
    from match_before_sep_is_word [OF assms(2,3) Some Cons.prems] assms(2)
    have "list_all is_word ((c # u) @ w)" by simp
    from takeWhile_word_run [OF this, of "''//'' @ v"]
    have "takeWhile is_word ?s = (c # u) @ w" by simp
    with g have "GetScheme ?s = (c # u) @ w" by simp
    then show ?thesis by (rule exI)
  qed
qed

text \<open>Every scheme found has this form.\<close>

lemma GetScheme_found:
  "GetScheme s \<noteq> [] \<Longrightarrow>
     \<exists>u v. s = u @ GetScheme s @ ''://'' @ v \<and> \<not> has_word_sep u
           \<and> list_all is_word (GetScheme s)"
proof (induction s)
  case Nil
  then show ?case by (simp add: GetScheme_def rmatch_scheme_Nil)
next
  case (Cons c cs)
  show ?case
  proof (cases "rmatch scheme_re (c # cs)")
    case None
    then have e: "GetScheme (c # cs) = GetScheme cs" by (rule GetScheme_no_match)
    with Cons obtain u v where u: "cs = u @ GetScheme cs @ ''://'' @ v" "\<not> has_word_sep u"
      "list_all is_word (GetScheme cs)"
      by auto
    have "\<not> (is_word c \<and> prefix ''://'' cs)"
      using None by (auto simp: rmatch_scheme_Cons)
    moreover have "prefix ''://'' u \<Longrightarrow> prefix ''://'' cs"
      using u(1) by (metis prefix_append prefix_order.dual_order.trans prefix_def)
    ultimately have "\<not> has_word_sep (c # u)" using u(2) by auto
    moreover have "c # cs = (c # u) @ GetScheme (c # cs) @ ''://'' @ v"
      using u(1) e by simp
    ultimately show ?thesis using u(3) e by metis
  next
    case (Some n)
    let ?w = "takeWhile is_word (c # cs)"
    from Some have g: "GetScheme (c # cs) = ?w" by (rule GetScheme_match)
    from Some have p: "prefix ''://'' (dropWhile is_word (c # cs))"
      by (auto simp: rmatch_scheme split: if_splits)
    then obtain v where v: "dropWhile is_word (c # cs) = ''://'' @ v" by (auto simp: prefix_def)
    have "c # cs = [] @ ?w @ ''://'' @ v"
      using v takeWhile_dropWhile_id [of is_word "c # cs"] by simp
    moreover have "list_all is_word ?w"
      by (simp add: list_all_iff) (meson set_takeWhileD)
    ultimately show ?thesis using g by (metis has_word_sep.simps(2))
  qed
qed

section \<open>C3: HasScheme\<close>

text \<open>
  \<open>contains_scheme2\<close> says what C3 says of a string.
\<close>

lemma contains_scheme2_iff:
  "contains_scheme2 s \<longleftrightarrow>
     (\<exists>u a b v. s = u @ a # b # ''://'' @ v \<and> is_word a \<and> is_word b)"
proof
  show "contains_scheme2 s \<Longrightarrow> \<exists>u a b v. s = u @ a # b # ''://'' @ v \<and> is_word a \<and> is_word b"
  proof (induction s rule: contains_scheme2.induct)
    case (1 a b cs)
    show ?case
    proof (cases "is_word a \<and> is_word b \<and> prefix ''://'' cs")
      case True
      then obtain v where "cs = ''://'' @ v" by (auto simp: prefix_def)
      with True have "a # b # cs = [] @ a # b # ''://'' @ v \<and> is_word a \<and> is_word b" by simp
      then show ?thesis by blast
    next
      case False
      with 1 obtain u x y v where "b # cs = u @ x # y # ''://'' @ v" "is_word x" "is_word y"
        by auto
      then have "a # b # cs = (a # u) @ x # y # ''://'' @ v \<and> is_word x \<and> is_word y" by simp
      then show ?thesis by blast
    qed
  qed simp_all
next
  assume "\<exists>u a b v. s = u @ a # b # ''://'' @ v \<and> is_word a \<and> is_word b"
  then obtain u a b v where s: "s = u @ a # b # ''://'' @ v" and w: "is_word a" "is_word b"
    by blast
  have "contains_scheme2 (u @ a # b # ''://'' @ v)"
  proof (induction u)
    case Nil
    from w show ?case by simp
  next
    case (Cons c u)
    then show ?case by (cases "u @ a # b # ''://'' @ v") auto
  qed
  with s show "contains_scheme2 s" by simp
qed

text \<open>
  C3 as stated says that \<open>HasScheme s\<close> holds if and only if \<open>s\<close> contains \<open>://\<close>
  immediately preceded by at least two word characters. \<open>x://ab://c\<close> contains
  \<open>ab://\<close>, but \<open>GetScheme\<close> takes the leftmost match, \<open>x://\<close>, whose scheme
  \<open>x\<close> has length 1, so \<open>HasScheme\<close> is false.
\<close>

theorem HasScheme_contains_counterexample:
  "contains_scheme2 ''x://ab://c'' \<and> \<not> HasScheme ''x://ab://c''"
  by (simp add: scheme_eval)

text \<open>
  C3, amended. \<open>HasScheme s\<close> holds if and only if the first \<open>://\<close> of \<open>s\<close>
  that is immediately preceded by a word character is preceded by at least two of
  them: \<open>s\<close> is \<open>u\<close>, then at least two word characters, then \<open>://\<close>, then
  any text, where \<open>u\<close> contains no \<open>://\<close> immediately preceded by a word
  character. \<open>HasScheme\<close> holds of \<open>mysql://host/db\<close>, whose scheme is \<open>mysql\<close>,
  and neither of \<open>/tmp/db\<close> nor of \<open>x://y\<close>.
\<close>

theorem HasScheme_first_separator:
  "(HasScheme s \<longleftrightarrow>
      (\<exists>u w v. s = u @ w @ ''://'' @ v \<and> \<not> has_word_sep u \<and> list_all is_word w
                \<and> 2 \<le> length w))
   \<and> HasScheme ''mysql://host/db'' \<and> GetScheme ''mysql://host/db'' = ''mysql''
   \<and> \<not> HasScheme ''/tmp/db'' \<and> \<not> HasScheme ''x://y''"
proof (intro conjI iffI)
  assume "HasScheme s"
  then have l: "2 \<le> length (GetScheme s)" by (simp add: HasScheme_def)
  then have "GetScheme s \<noteq> []" by auto
  from GetScheme_found [OF this] l
  show "\<exists>u w v. s = u @ w @ ''://'' @ v \<and> \<not> has_word_sep u \<and> list_all is_word w
                \<and> 2 \<le> length w"
    by blast
next
  assume "\<exists>u w v. s = u @ w @ ''://'' @ v \<and> \<not> has_word_sep u \<and> list_all is_word w
                \<and> 2 \<le> length w"
  then obtain u w v where s: "s = u @ w @ ''://'' @ v" and u: "\<not> has_word_sep u"
    and w: "list_all is_word w" "2 \<le> length w"
    by blast
  from w have "w \<noteq> []" by auto
  from GetScheme_decomposed [OF u w(1) this, of v] s obtain x where "GetScheme s = x @ w"
    by auto
  with w(2) show "HasScheme s" by (simp add: HasScheme_def)
qed (simp_all add: scheme_eval)

theorem HasScheme_first_separator_witness:
  "HasScheme ''C://ab://c'' = False \<and> HasScheme ''/srv/ab://c''"
proof -
  have "\<exists>u w v. ''/srv/ab://c'' = u @ w @ ''://'' @ v \<and> \<not> has_word_sep u \<and> list_all is_word w
                \<and> 2 \<le> length w"
    by (intro exI [of _ "''/srv/''"] exI [of _ "''ab''"] exI [of _ "''c''"])
       (simp add: is_word_def is_digit_def)
  with HasScheme_first_separator [of "''/srv/ab://c''"] have "HasScheme ''/srv/ab://c''"
    by blast
  then show ?thesis by (simp add: scheme_eval)
qed

section \<open>The patterns of compatMySql\<close>

text \<open>
  Each pattern of \<open>compatMySql\<close> matches at the start of a text exactly the
  occurrence that \<open>marker_at\<close>, \<open>keywords_at\<close> and \<open>literal_at\<close> describe, so
  \<open>compatMySql\<close> is the four rewritings of \<open>rewritten\<close>, in its order.
\<close>

lemma replace_from_rewrite:
  "replace_from re repl k s = rewrite_from (rmatch re) repl k s"
  by (induction re repl k s rule: replace_from.induct) (auto split: option.splits nat.splits)

lemma rmatch_greedy_then:
  assumes "\<And>c cs. atom_ok a c \<Longrightarrow> rmatch r (dropWhile (atom_ok a) (c # cs)) = None
             \<Longrightarrow> rmatch r (c # cs) = None"
  shows "rmatch (PlusGreedy a # r) s =
     (if takeWhile (atom_ok a) s = [] then None
      else map_option (\<lambda>n. length (takeWhile (atom_ok a) s) + n)
             (rmatch r (dropWhile (atom_ok a) s)))"
proof (induction s)
  case Nil
  then show ?case by simp
next
  case (Cons c cs)
  show ?case
  proof (cases "atom_ok a c")
    case False
    then show ?thesis by simp
  next
    case True
    show ?thesis
    proof (cases "takeWhile (atom_ok a) cs = []")
      case e: True
      then have "dropWhile (atom_ok a) cs = cs"
        by (cases cs) (auto split: if_splits)
      with e True Cons show ?thesis
        by (cases "rmatch r cs") simp_all
    next
      case ne: False
      then obtain d ds where cs: "cs = d # ds" and d: "atom_ok a d"
        by (cases cs) (auto split: if_splits)
      show ?thesis
      proof (cases "rmatch r (dropWhile (atom_ok a) cs)")
        case None
        with assms [OF d, of ds] cs have "rmatch r cs = None" by simp
        with None ne True Cons show ?thesis by simp
      next
        case (Some n)
        with ne True Cons show ?thesis by simp
      qed
    qed
  qed
qed

lemma rmatch_greedy_end:
  "rmatch [PlusGreedy a] s =
     (if takeWhile (atom_ok a) s = [] then None else Some (length (takeWhile (atom_ok a) s)))"
  using rmatch_greedy_then [of a "[]" s] by simp

lemma rmatch_marker:
  "rmatch [One (Ch (CHR ''?'')), PlusGreedy DigitCh] s = marker_at s"
proof -
  have "atom_ok DigitCh = is_digit" by (rule ext) simp
  then show ?thesis
    by (cases s) (auto simp: marker_at_def rmatch_greedy_end)
qed

lemma rmatch_literal: "rmatch (lit k) s = literal_at k s"
  using rmatch_lit [of k "[]" s] by (simp add: literal_at_def)

lemma rmatch_lit_mismatch:
  "k \<noteq> [] \<Longrightarrow> c \<noteq> hd k \<Longrightarrow> rmatch (lit k @ r) (c # cs) = None"
  by (cases k) (simp_all add: lit_def)

lemma rmatch_keyword:
  assumes "\<And>c cs. is_space c \<Longrightarrow> rmatch r (dropWhile is_space (c # cs)) = None
             \<Longrightarrow> rmatch r (c # cs) = None"
  shows "rmatch (lit k @ PlusGreedy SpaceCh # r) s =
     (case keyword_at k s of
        None \<Rightarrow> None
      | Some n \<Rightarrow> map_option (\<lambda>m. n + m) (rmatch r (drop n s)))"
proof -
  have a: "atom_ok SpaceCh = is_space" by (rule ext) simp
  have g: "rmatch (PlusGreedy SpaceCh # r) t =
     (if takeWhile is_space t = [] then None
      else map_option (\<lambda>n. length (takeWhile is_space t) + n) (rmatch r (dropWhile is_space t)))"
    for t
    using rmatch_greedy_then [of SpaceCh r t] assms by (simp add: a)
  have d: "drop (length k + length (takeWhile is_space (drop (length k) s))) s
             = dropWhile is_space (drop (length k) s)"
    by (simp add: dropWhile_eq_drop add.commute)
  show ?thesis
    by (cases "rmatch r (dropWhile is_space (drop (length k) s))")
       (simp_all add: rmatch_lit g keyword_at_def d)
qed

lemma rmatch_keywords3:
  assumes "k2 \<noteq> []" "\<not> is_space (hd k2)" "k3 \<noteq> []" "\<not> is_space (hd k3)"
  shows "rmatch (lit k1 @ PlusGreedy SpaceCh # lit k2 @ PlusGreedy SpaceCh
                   # lit k3 @ [PlusGreedy SpaceCh]) s
         = keywords_at [k1, k2, k3] s"
proof -
  let ?r3 = "lit k3 @ [PlusGreedy SpaceCh]"
  let ?r2 = "lit k2 @ PlusGreedy SpaceCh # ?r3"
  have r3: "rmatch ?r3 t = keyword_at k3 t" for t
    using rmatch_keyword [of "[]" k3 t] by (simp split: option.splits)
  have h2: "rmatch ?r3 (c # cs) = None" if "is_space c" for c cs
    using rmatch_lit_mismatch [OF assms(3), of c] that assms(4) by auto
  have r2: "rmatch ?r2 t =
      (case keyword_at k2 t of None \<Rightarrow> None
       | Some n \<Rightarrow> map_option (\<lambda>m. n + m) (rmatch ?r3 (drop n t)))"
    for t
    using h2 by (intro rmatch_keyword) simp
  have h1: "rmatch ?r2 (c # cs) = None" if "is_space c" for c cs
    using rmatch_lit_mismatch [OF assms(1), of c] that assms(2) by auto
  have r1: "rmatch (lit k1 @ PlusGreedy SpaceCh # ?r2) s =
      (case keyword_at k1 s of None \<Rightarrow> None
       | Some n \<Rightarrow> map_option (\<lambda>m. n + m) (rmatch ?r2 (drop n s)))"
    using h1 by (intro rmatch_keyword) simp
  show ?thesis
    unfolding r1 r2 r3 by (simp split: option.splits)
qed

lemma compatMySql_rewritten: "compatMySql q = rewritten ''mysql'' q"
proof -
  have m: "rmatch [One (Ch (CHR ''?'')), PlusGreedy DigitCh] = marker_at"
    by (rule ext) (rule rmatch_marker)
  have i: "rmatch (lit ''INSERT'' @ [PlusGreedy SpaceCh] @ lit ''OR'' @ [PlusGreedy SpaceCh]
                     @ lit ''IGNORE'' @ [PlusGreedy SpaceCh])
           = keywords_at [''INSERT'', ''OR'', ''IGNORE'']"
    by (rule ext) (simp add: rmatch_keywords3 is_space_def)
  have r: "rmatch (lit ''INSERT'' @ [PlusGreedy SpaceCh] @ lit ''OR'' @ [PlusGreedy SpaceCh]
                     @ lit ''REPLACE'' @ [PlusGreedy SpaceCh])
           = keywords_at [''INSERT'', ''OR'', ''REPLACE'']"
    by (rule ext) (simp add: rmatch_keywords3 is_space_def)
  have e: "rmatch (lit ''=='') = literal_at ''==''"
    by (rule ext) (rule rmatch_literal)
  show ?thesis
    unfolding compatMySql_def rewritten_def ReplaceAllString_def Let_def replace_from_rewrite
      m i r e
    by simp
qed

section \<open>C4: the statement a transaction hands to its driver\<close>

text \<open>
  C4. \<open>Exec\<close> and \<open>Query\<close> hand the driver the statement rewritten for the driver
  of the transaction. For \<open>mysql\<close> the rewriting applies, in this order: every \<open>?\<close>
  followed by digits becomes \<open>?\<close>; every \<open>INSERT OR IGNORE\<close> (the keywords
  separated and followed by white space) becomes \<open>INSERT IGNORE\<close> and a blank; every
  \<open>INSERT OR REPLACE\<close> becomes \<open>REPLACE\<close> and a blank; every \<open>==\<close> becomes
  \<open>=\<close>. For any other driver the statement is unchanged. The four examples of the
  specification are rewritten as it says.
\<close>

theorem finalizeQuery_rewrites:
  "Exec tx q args db = tx_Exec tx (rewritten (driver tx) q) args db
   \<and> Query tx q args db = tx_Query tx (rewritten (driver tx) q) args db
   \<and> (d \<noteq> ''mysql'' \<longrightarrow> rewritten d q = q)
   \<and> rewritten ''mysql'' ''INSERT OR IGNORE INTO x ...'' = ''INSERT IGNORE INTO x ...''
   \<and> rewritten ''mysql'' ''INSERT OR REPLACE INTO x ...'' = ''REPLACE INTO x ...''
   \<and> rewritten ''mysql'' ''WHERE a == ?'' = ''WHERE a = ?''
   \<and> rewritten ''mysql'' ''WHERE a = ?2'' = ''WHERE a = ?''"
proof -
  have f: "finalizeQuery tx q = rewritten (driver tx) q"
    by (simp add: finalizeQuery_def compatMySql_rewritten) (simp add: rewritten_def)
  have e: "compatMySql ''INSERT OR IGNORE INTO x ...'' = ''INSERT IGNORE INTO x ...''"
    "compatMySql ''INSERT OR REPLACE INTO x ...'' = ''REPLACE INTO x ...''"
    "compatMySql ''WHERE a == ?'' = ''WHERE a = ?''"
    "compatMySql ''WHERE a = ?2'' = ''WHERE a = ?''"
    by code_simp+
  show ?thesis
    using e by (simp add: Exec_def Query_def f compatMySql_rewritten) (simp add: rewritten_def)
qed

theorem finalizeQuery_rewrites_witness:
  "Exec (log_tx ''mysql'') ''INSERT  OR IGNORE INTO t VALUES (?1, ?22) -- a==b'' [] []
     = Inr (Result (Inr 0), [''INSERT IGNORE INTO t VALUES (?, ?) -- a=b''])
   \<and> Exec (log_tx ''sqlite3'') ''INSERT  OR IGNORE INTO t VALUES (?1, ?22) -- a==b'' [] []
     = Inr (Result (Inr 0), [''INSERT  OR IGNORE INTO t VALUES (?1, ?22) -- a==b''])"
proof -
  have n: "''sqlite3'' \<noteq> ''mysql''" by simp
  have c: "compatMySql ''INSERT  OR IGNORE INTO t VALUES (?1, ?22) -- a==b''
             = ''INSERT IGNORE INTO t VALUES (?, ?) -- a=b''"
    by code_simp
  note t = finalizeQuery_rewrites
  from t [THEN conjunct1, of "log_tx ''mysql''"]
    t [THEN conjunct1, of "log_tx ''sqlite3''"]
    t [THEN conjunct2, THEN conjunct2, THEN conjunct1, rule_format, OF n]
  show ?thesis
    by (simp add: log_tx_def c [unfolded compatMySql_rewritten])
qed

section \<open>The statements of schema.go on the engine\<close>

text \<open>
  The dialect translation changes none of the statements of schema.go, so a
  transaction of any driver hands each of them to the engine as written.
\<close>

lemmas sql_defs =
  sql_createTagTable_def sql_createTagIndex_def sql_createFileTable_def
  sql_createFileIndex_def sql_createValueTable_def sql_createFileTagTable_def
  sql_createFileTagIndex1_def sql_createFileTagIndex2_def sql_createFileTagIndex3_def
  sql_createImplicationTable_def sql_createQueryTable_def sql_createSettingTable_def
  sql_createVersionTable_def sql_insertDefaultValue_def sql_insertSchemaVersion_def
  sql_updateSchemaVersion_def sql_currentSchemaVersion_def

lemmas stmt_defs =
  stmt_createTagTable_def stmt_createTagIndex_def stmt_createFileTable_def
  stmt_createFileIndex_def stmt_createValueTable_def stmt_createFileTagTable_def
  stmt_createFileTagIndex1_def stmt_createFileTagIndex2_def stmt_createFileTagIndex3_def
  stmt_createImplicationTable_def stmt_createQueryTable_def stmt_createSettingTable_def
  stmt_createVersionTable_def stmt_insertDefaultValue_def stmt_insertSchemaVersion_def
  stmt_updateSchemaVersion_def stmt_currentSchemaVersion_def

lemma compat_statements: "list_all (\<lambda>(q, st). compatMySql q = q) statements"
  by code_simp

lemma finalize_statement:
  assumes "sql_parse q = Some st"
  shows "finalizeQuery (engine_tx d) q = q"
proof -
  from assms have "(q, st) \<in> set statements"
    by (simp add: sql_parse_def map_of_SomeD)
  with compat_statements have "compatMySql q = q"
    by (auto simp: list_all_iff)
  then show ?thesis by (simp add: finalizeQuery_def)
qed

lemma Exec_engine:
  "sql_parse q = Some st \<Longrightarrow> Exec (engine_tx d) q args db = run_exec st args db"
  by (simp add: Exec_def finalize_statement) (simp add: engine_tx_def)

lemma Query_engine:
  "sql_parse q = Some st \<Longrightarrow> Query (engine_tx d) q args db = run_query st args db"
  by (simp add: Query_def finalize_statement) (simp add: engine_tx_def)

lemma parse_statements:
  "sql_parse sql_createTagTable = Some stmt_createTagTable"
  "sql_parse sql_createTagIndex = Some stmt_createTagIndex"
  "sql_parse sql_createFileTable = Some stmt_createFileTable"
  "sql_parse sql_createFileIndex = Some stmt_createFileIndex"
  "sql_parse sql_createValueTable = Some stmt_createValueTable"
  "sql_parse sql_createFileTagTable = Some stmt_createFileTagTable"
  "sql_parse sql_createFileTagIndex1 = Some stmt_createFileTagIndex1"
  "sql_parse sql_createFileTagIndex2 = Some stmt_createFileTagIndex2"
  "sql_parse sql_createFileTagIndex3 = Some stmt_createFileTagIndex3"
  "sql_parse sql_createImplicationTable = Some stmt_createImplicationTable"
  "sql_parse sql_createQueryTable = Some stmt_createQueryTable"
  "sql_parse sql_createSettingTable = Some stmt_createSettingTable"
  "sql_parse sql_createVersionTable = Some stmt_createVersionTable"
  "sql_parse sql_insertDefaultValue = Some stmt_insertDefaultValue"
  "sql_parse sql_insertSchemaVersion = Some stmt_insertSchemaVersion"
  "sql_parse sql_updateSchemaVersion = Some stmt_updateSchemaVersion"
  "sql_parse sql_currentSchemaVersion = Some stmt_currentSchemaVersion"
  by (simp_all add: sql_parse_def statements_def sql_defs)

lemmas Exec_statements = parse_statements [THEN Exec_engine]
lemmas Query_statements = parse_statements [THEN Query_engine]

lemmas schema_defs = createSchema_def createTagTable_def createFileTable_def createValueTable_def
  createFileTagTable_def createImplicationTable_def createQueryTable_def createSettingTable_def
  createVersionTable_def insertDefaultValue_def insertSchemaVersion_def latestSchemaVersion_def
  and_then_def exec_stmt_def

section \<open>The store that createSchema creates\<close>

lemmas engine_defs = run_exec_def run_query_def rows_ok_def notnull_ok_def rowid_ok_def
  keys_ok_def constraint_error_def assign_rowid_def rowid_column_def column_ints_def
  column_names_def project_def arg_uint_def

lemma createSchema_fresh: "createSchema (engine_tx d) fresh = (None, schema_store)"
  by (simp add: schema_store_def schema_defs Exec_statements stmt_defs engine_defs fresh_def)

lemma schema_store_tables:
  "tables schema_store ''tag'' =
     Some \<lparr>columns = [(''id'', ''INTEGER''), (''name'', ''VARCHAR(255)'')],
           notnull = [''name''], keys = [[''id'']], foreign_keys = [], table_rows = []\<rparr>"
  "tables schema_store ''value'' =
     Some \<lparr>columns = [(''id'', ''INTEGER''), (''name'', ''VARCHAR(255)'')],
           notnull = [''name''], keys = [[''id''], [''name'']], foreign_keys = [],
           table_rows = [[IntV 0, TextV ''dummy'']]\<rparr>"
  "tables schema_store ''version'' =
     Some (empty_version_table\<lparr>table_rows := [[IntV 0, IntV 7, IntV 0, IntV 1]]\<rparr>)"
  by (simp_all add: schema_store_def schema_defs Exec_statements stmt_defs engine_defs fresh_def
        empty_version_table_def)

lemma schema_store_indexes:
  "indexes schema_store ''idx_tag_name'' = Some (''tag'', [''name''])"
  "indexes schema_store ''idx_file_fingerprint'' = Some (''file'', [''fingerprint''])"
  "indexes schema_store ''idx_file_tag_file_id'' = Some (''file_tag'', [''file_id''])"
  "indexes schema_store ''idx_file_tag_tag_id'' = Some (''file_tag'', [''tag_id''])"
  "indexes schema_store ''idx_file_tag_value_id'' = Some (''file_tag'', [''value_id''])"
  "tables schema_store ''file'' \<noteq> None"
  "tables schema_store ''file_tag'' \<noteq> None"
  "tables schema_store ''implication'' \<noteq> None"
  "tables schema_store ''query'' \<noteq> None"
  "tables schema_store ''setting'' \<noteq> None"
  by (simp_all add: schema_store_def schema_defs Exec_statements stmt_defs engine_defs fresh_def)

lemma createSchema_again:
  "createSchema (engine_tx d) schema_store =
     (Some (Errorf ''could not insert default value'' (SqlError (ConstraintFailed ''value''))),
      schema_store)"
proof -
  have ex: "\<exists>t. tables schema_store n = Some t" if "tables schema_store n \<noteq> None" for n
    using that by auto
  show ?thesis
    using schema_store_indexes(6-10)[THEN ex]
    by (auto simp add: schema_defs Exec_statements stmt_defs engine_defs
        schema_store_tables schema_store_indexes)
qed

text \<open>
  The engine gives a row its id when the statement binds none or NULL for it.
\<close>

lemma insert_row_assigns_id:
  "Option.bind
     (Option.bind (insert_row ''tag'' [''name''] [TextV ''a''] schema_store)
        (insert_row ''tag'' [''id'', ''name''] [NullV, TextV ''b'']))
     (rows_of ''tag'')
   = Some [[IntV 1, TextV ''a''], [IntV 2, TextV ''b'']]"
  by (simp add: insert_row_def engine_defs schema_store_tables rows_of_def)

section \<open>C1: createSchema run twice\<close>

text \<open>
  C1 as stated says that a second \<open>createSchema\<close> on the store the first one created
  returns no error. It returns one: \<open>insertDefaultValue\<close> sends a plain INSERT of the
  row with id 0, which the primary key of \<open>value\<close> rejects, and the check on the
  affected rows would reject an ignored insert as well.
\<close>

theorem createSchema_twice_counterexample:
  "fst (createSchema (engine_tx ''sqlite3'') (snd (createSchema (engine_tx ''sqlite3'') fresh)))
     = Some (Errorf ''could not insert default value'' (SqlError (ConstraintFailed ''value'')))"
  by (simp add: createSchema_fresh createSchema_again)

text \<open>
  C1, amended. On the fresh store and for a transaction of any driver, the first
  \<open>createSchema\<close> returns no error. A second one in succession returns the error
  of \<open>insertDefaultValue\<close> (the insert violates the primary key of \<open>value\<close>) and
  leaves the store as it was: the version table holds exactly one row, \<open>0.7.0-1\<close>,
  and the value table holds exactly one row, with id 0 and name dummy.
\<close>

theorem createSchema_twice:
  "createSchema (engine_tx d) fresh = (None, schema_store)
   \<and> createSchema (engine_tx d) schema_store =
       (Some (Errorf ''could not insert default value'' (SqlError (ConstraintFailed ''value''))),
        schema_store)
   \<and> rows_of ''version'' schema_store = Some [[IntV 0, IntV 7, IntV 0, IntV 1]]
   \<and> rows_of ''value'' schema_store = Some [[IntV 0, TextV ''dummy'']]"
  by (simp add: createSchema_fresh createSchema_again rows_of_def schema_store_tables
      empty_version_table_def)

theorem createSchema_twice_witness:
  "fst (createSchema (engine_tx ''mysql'') fresh) = None
   \<and> fst (createSchema (engine_tx ''mysql'') (snd (createSchema (engine_tx ''mysql'') fresh)))
       \<noteq> None
   \<and> rows_of ''value''
         (snd (createSchema (engine_tx ''mysql'') (snd (createSchema (engine_tx ''mysql'') fresh))))
       = Some [[IntV 0, TextV ''dummy'']]"
  using createSchema_twice [of "''mysql''"] by simp

section \<open>C2: the key of the tag table\<close>

text \<open>
  C2 as stated says that no two rows of the tag table carry the same name. The table
  that \<open>createTagTable\<close> creates takes both rows \<open>(1, a)\<close> and \<open>(2, a)\<close>: the name
  column is NOT NULL and has the plain index \<open>idx_tag_name\<close>, not a UNIQUE constraint
  (the value table has one, \<open>con_value_name\<close>).
\<close>

theorem tag_name_unique_counterexample:
  "Option.bind
     (Option.bind (insert_row ''tag'' [''id'', ''name''] [IntV 1, TextV ''a''] schema_store)
        (insert_row ''tag'' [''id'', ''name''] [IntV 2, TextV ''a'']))
     (rows_of ''tag'')
   = Some [[IntV 1, TextV ''a''], [IntV 2, TextV ''a'']]"
  by (simp add: insert_row_def engine_defs schema_store_tables rows_of_def)

text \<open>
  C2, amended. In the store created by \<open>createSchema\<close> (for any driver) the only key
  of the tag table is its primary key \<open>id\<close>, its only NOT NULL column is \<open>name\<close>,
  and \<open>idx_tag_name\<close> is an index on \<open>tag(name)\<close>. So two rows with different ids
  may carry the same name, no two rows may carry the same id, and no row may have
  NULL for its name.
\<close>

theorem tag_table_key:
  assumes "i \<noteq> j"
  shows "snd (createSchema (engine_tx d) fresh) = schema_store
   \<and> map_option keys (tables schema_store ''tag'') = Some [[''id'']]
   \<and> map_option notnull (tables schema_store ''tag'') = Some [''name'']
   \<and> indexes schema_store ''idx_tag_name'' = Some (''tag'', [''name''])
   \<and> Option.bind
       (Option.bind (insert_row ''tag'' [''id'', ''name''] [IntV i, TextV n] schema_store)
          (insert_row ''tag'' [''id'', ''name''] [IntV j, TextV n]))
       (rows_of ''tag'')
     = Some [[IntV i, TextV n], [IntV j, TextV n]]
   \<and> Option.bind (insert_row ''tag'' [''id'', ''name''] [IntV i, TextV n] schema_store)
       (insert_row ''tag'' [''id'', ''name''] [IntV i, TextV m]) = None
   \<and> insert_row ''tag'' [''id'', ''name''] [IntV i, NullV] schema_store = None"
  using assms
  by (simp add: createSchema_fresh insert_row_def engine_defs schema_store_tables
      schema_store_indexes rows_of_def)

theorem tag_table_key_witness:
  "Option.bind
       (Option.bind (insert_row ''tag'' [''id'', ''name''] [IntV 1, TextV ''x''] schema_store)
          (insert_row ''tag'' [''id'', ''name''] [IntV 2, TextV ''x'']))
       (rows_of ''tag'')
     = Some [[IntV 1, TextV ''x''], [IntV 2, TextV ''x'']]
   \<and> Option.bind (insert_row ''tag'' [''id'', ''name''] [IntV 1, TextV ''x''] schema_store)
       (insert_row ''tag'' [''id'', ''name''] [IntV 1, TextV ''y'']) = None
   \<and> insert_row ''tag'' [''id'', ''name''] [IntV 1, NullV] schema_store = None
   \<and> map_option notnull (tables schema_store ''tag'') = Some [''name'']"
proof -
  have h: "(1::int) \<noteq> 2" by simp
  show ?thesis using tag_table_key [OF h, of "''sqlite3''" "''x''" "''y''"] by simp
qed

section \<open>Scan\<close>

text \<open>
  A \<open>Scan\<close> that fails leaves the last destination as it was: the count is checked
  before any conversion, and the conversion stops at the column that fails.
\<close>

lemma scan_columns_length: "length (snd (scan_columns row ds)) = length ds"
  by (induction row ds rule: scan_columns.induct) (auto split: option.splits prod.splits)

lemma scan_columns_last:
  "fst (scan_columns row ds) \<noteq> None \<Longrightarrow> last (snd (scan_columns row ds)) = last ds"
proof (induction row ds rule: scan_columns.induct)
  case (1 v vs d ds)
  show ?case
  proof (cases "convert_uint v")
    case None
    then show ?thesis by simp
  next
    case (Some u)
    obtain e ds' where r: "scan_columns vs ds = (e, ds')" by (cases "scan_columns vs ds")
    with Some 1 have e: "e \<noteq> None" by simp
    with 1 Some r have "last ds' = last ds" by simp
    moreover from r have "length ds' = length ds"
      using scan_columns_length [of vs ds] by simp
    moreover from e r have "ds \<noteq> []" by (cases ds) (auto split: list.splits)
    ultimately show ?thesis using Some r by auto
  qed
qed simp_all

lemma Scan_length: "length (snd (Scan row ds)) = length ds"
  by (simp add: Scan_def scan_columns_length)

lemma Scan_failed_last:
  "Scan row ds = (Some e, vs) \<Longrightarrow> last vs = last ds \<and> length vs = length ds"
  using scan_columns_last [of row ds] Scan_length [of row ds]
  by (auto simp: Scan_def split: if_splits)

lemma Scan4_failed:
  assumes "Scan row [a, b, c, d] = (Some e, vs)"
  shows "drop 3 vs = [d]" and "length (snd (Scan row (take 3 vs))) = 3"
proof -
  from Scan_failed_last [OF assms] have l: "last vs = d" "length vs = 4" by simp_all
  then obtain x y z u where vs: "vs = [x, y, z, u]"
    by (cases vs; cases "tl vs"; cases "tl (tl vs)"; cases "tl (tl (tl vs))") auto
  with l show "drop 3 vs = [d]" by simp
  from vs show "length (snd (Scan row (take 3 vs))) = 3" by (simp add: Scan_length)
qed

section \<open>C5: updateSchemaVersion\<close>

text \<open>
  C5. For every version \<open>v\<close>, transaction and store: if the version that
  \<open>currentSchemaVersion\<close> reads equals \<open>v\<close>, \<open>updateSchemaVersion\<close> returns no
  error and leaves the store as it is (no statement is executed, no row changes). If it
  differs, \<open>updateSchemaVersion\<close> returns no error exactly when the UPDATE it issues
  succeeds and reports exactly one affected row, and an error otherwise; on success the
  store is the one the UPDATE left.
\<close>

theorem updateSchemaVersion_cases:
  "(currentSchemaVersion tx db = v \<longrightarrow> updateSchemaVersion tx v db = (None, db))
   \<and> (currentSchemaVersion tx db \<noteq> v \<longrightarrow>
        (fst (updateSchemaVersion tx v db) = None \<longleftrightarrow>
           (\<exists>result db'. Exec tx sql_updateSchemaVersion (version_args v) db = Inr (result, db')
                          \<and> RowsAffected result = Inr 1))
        \<and> (fst (updateSchemaVersion tx v db) = None \<longrightarrow>
             (\<exists>result. Exec tx sql_updateSchemaVersion (version_args v) db
                          = Inr (result, snd (updateSchemaVersion tx v db)))))"
  by (auto simp: updateSchemaVersion_def version_args_def Let_def split: sum.splits prod.splits)

theorem updateSchemaVersion_cases_witness:
  "updateSchemaVersion (engine_tx ''sqlite3'') latestSchemaVersion schema_store = (None, schema_store)
   \<and> fst (updateSchemaVersion (engine_tx ''sqlite3'')
             \<lparr>Major = 0, Minor = 7, Patch = 0, Revision = 2\<rparr> schema_store) = None
   \<and> fst (updateSchemaVersion (engine_tx ''sqlite3'')
             \<lparr>Major = 0, Minor = 7, Patch = 0, Revision = 2\<rparr>
             (fresh\<lparr>tables := [''version'' \<mapsto> empty_version_table]\<rparr>)) \<noteq> None"
proof -
  let ?tx = "engine_tx ''sqlite3''"
  let ?v = "\<lparr>Major = 0, Minor = 7, Patch = 0, Revision = 2\<rparr>"
  let ?e = "fresh\<lparr>tables := [''version'' \<mapsto> empty_version_table]\<rparr>"
  have c1: "currentSchemaVersion ?tx schema_store = latestSchemaVersion"
    by (simp add: currentSchemaVersion_def Query_statements stmt_defs engine_defs
        schema_store_tables Next_def Err_def Scan_def empty_version_table_def
        latestSchemaVersion_def)
  then have c2: "currentSchemaVersion ?tx schema_store \<noteq> ?v"
    by (simp add: latestSchemaVersion_def)
  have c3: "currentSchemaVersion ?tx ?e \<noteq> ?v"
    by (simp add: currentSchemaVersion_def Query_statements stmt_defs engine_defs
        Next_def Err_def Scan_def empty_version_table_def)
  have e2: "\<exists>result db'. Exec ?tx sql_updateSchemaVersion (version_args ?v) schema_store
                = Inr (result, db') \<and> RowsAffected result = Inr 1"
    by (simp add: Exec_statements stmt_defs engine_defs schema_store_tables
        empty_version_table_def version_args_def)
  have e3: "\<not> (\<exists>result db'. Exec ?tx sql_updateSchemaVersion (version_args ?v) ?e
                = Inr (result, db') \<and> RowsAffected result = Inr 1)"
    by (simp add: Exec_statements stmt_defs engine_defs
        empty_version_table_def version_args_def)
  note t = updateSchemaVersion_cases
  from t [of ?tx schema_store latestSchemaVersion, THEN conjunct1, rule_format, OF c1]
    t [of ?tx schema_store ?v, THEN conjunct2, rule_format, OF c2] e2
    t [of ?tx ?e ?v, THEN conjunct2, rule_format, OF c3] e3
  show ?thesis by simp
qed

section \<open>C6: insertSchemaVersion, then currentSchemaVersion\<close>

text \<open>
  C6 as stated says that the round trip returns \<open>v\<close> for every version \<open>v\<close>. For
  the version whose major number is \<open>2^63\<close> the argument reaches the engine as the
  \<open>int64\<close> \<open>-2^63\<close>; the insert succeeds, the decode of that column into a \<open>uint\<close>
  fails, the second decode fails on the number of columns, and
  \<open>currentSchemaVersion\<close> returns the zero version.
\<close>

theorem insert_then_current_counterexample:
  "fst (insertSchemaVersion (engine_tx ''sqlite3'')
          \<lparr>Major = 9223372036854775808, Minor = 0, Patch = 0, Revision = 0\<rparr>
          (fresh\<lparr>tables := [''version'' \<mapsto> empty_version_table]\<rparr>)) = None
   \<and> rows_of ''version''
        (snd (insertSchemaVersion (engine_tx ''sqlite3'')
                \<lparr>Major = 9223372036854775808, Minor = 0, Patch = 0, Revision = 0\<rparr>
                (fresh\<lparr>tables := [''version'' \<mapsto> empty_version_table]\<rparr>)))
       = Some [[IntV (- 9223372036854775808), IntV 0, IntV 0, IntV 0]]
   \<and> currentSchemaVersion (engine_tx ''sqlite3'')
        (snd (insertSchemaVersion (engine_tx ''sqlite3'')
                \<lparr>Major = 9223372036854775808, Minor = 0, Patch = 0, Revision = 0\<rparr>
                (fresh\<lparr>tables := [''version'' \<mapsto> empty_version_table]\<rparr>)))
       = zeroVersion"
proof -
  let ?v = "\<lparr>Major = 9223372036854775808, Minor = 0, Patch = 0, Revision = 0\<rparr>"
  let ?db = "fresh\<lparr>tables := [''version'' \<mapsto> empty_version_table]\<rparr>"
  let ?db' = "fresh\<lparr>tables := [''version'' \<mapsto>
                 empty_version_table\<lparr>table_rows :=
                   [[IntV (- 9223372036854775808), IntV 0, IntV 0, IntV 0]]\<rparr>]\<rparr>"
  have s: "sint (9223372036854775808 :: go_uint) = - 9223372036854775808"
    by simp
  have ins: "insertSchemaVersion (engine_tx ''sqlite3'') ?v ?db = (None, ?db')"
    by (simp add: insertSchemaVersion_def Exec_statements stmt_defs engine_defs
        empty_version_table_def fresh_def s)
  have cur: "currentSchemaVersion (engine_tx ''sqlite3'') ?db' = zeroVersion"
    by (simp add: currentSchemaVersion_def Query_statements stmt_defs engine_defs
        empty_version_table_def fresh_def Next_def Err_def Scan_def zeroVersion_def)
  from ins cur show ?thesis by (simp add: rows_of_def)
qed

text \<open>
  C6, amended. For every version \<open>v\<close> whose four fields are below \<open>2^63\<close> and for
  every driver, on a store whose version table is the one \<open>createVersionTable\<close>
  creates and has no row, \<open>insertSchemaVersion v\<close> returns no error, leaves the one
  row \<open>v\<close>, and \<open>currentSchemaVersion\<close> then returns a version equal to \<open>v\<close> in
  all four fields. For every version, transaction and store, \<open>insertSchemaVersion\<close>
  returns no error exactly when its INSERT succeeds and reports exactly one affected
  row.
\<close>

theorem insert_then_current:
  assumes "tables db ''version'' = Some empty_version_table"
    and "uint (Major v) < 2 ^ 63" and "uint (Minor v) < 2 ^ 63"
    and "uint (Patch v) < 2 ^ 63" and "uint (Revision v) < 2 ^ 63"
  shows "fst (insertSchemaVersion (engine_tx d) v db) = None
     \<and> currentSchemaVersion (engine_tx d) (snd (insertSchemaVersion (engine_tx d) v db)) = v
     \<and> rows_of ''version'' (snd (insertSchemaVersion (engine_tx d) v db)) = Some [version_args v]
     \<and> (fst (insertSchemaVersion tx v' db0) = None \<longleftrightarrow>
          (\<exists>result db1. Exec tx sql_insertSchemaVersion (version_args v') db0 = Inr (result, db1)
                         \<and> RowsAffected result = Inr 1))"
proof -
  let ?db' = "db\<lparr>tables := (tables db)(''version'' \<mapsto>
                 empty_version_table\<lparr>table_rows := [version_args v]\<rparr>)\<rparr>"
  have s: "sint w = uint w" if "uint w < 2 ^ 63" for w :: go_uint
  proof -
    have "- (2 ^ 63) \<le> (0 :: int)" by simp
    also have "0 \<le> uint w" by simp
    finally have "- (2 ^ 63) \<le> uint w" .
    from signed_take_bit_int_eq_self [OF this that] show ?thesis by (simp add: sint_uint)
  qed
  note a = s [OF assms(2)] s [OF assms(3)] s [OF assms(4)] s [OF assms(5)]
  have ins: "insertSchemaVersion (engine_tx d) v db = (None, ?db')"
    using assms(1)
    by (simp add: insertSchemaVersion_def Exec_statements stmt_defs engine_defs
        empty_version_table_def version_args_def)
  have b: "uint w < 18446744073709551616" for w :: go_uint
    using uint_bounded [of w] by simp
  have cur: "currentSchemaVersion (engine_tx d) ?db' = v"
    by (simp add: currentSchemaVersion_def Query_statements stmt_defs engine_defs
        empty_version_table_def version_args_def Next_def Err_def Scan_def a b)
  have gen: "fst (insertSchemaVersion tx v' db0) = None \<longleftrightarrow>
          (\<exists>result db1. Exec tx sql_insertSchemaVersion (version_args v') db0 = Inr (result, db1)
                         \<and> RowsAffected result = Inr 1)"
    by (auto simp: insertSchemaVersion_def version_args_def split: sum.splits prod.splits)
  from ins cur gen show ?thesis by (simp add: rows_of_def)
qed

theorem insert_then_current_witness:
  "fst (insertSchemaVersion (engine_tx ''sqlite3'')
          \<lparr>Major = 1, Minor = 2, Patch = 3, Revision = 4\<rparr>
          (fresh\<lparr>tables := [''version'' \<mapsto> empty_version_table]\<rparr>)) = None
   \<and> currentSchemaVersion (engine_tx ''sqlite3'')
        (snd (insertSchemaVersion (engine_tx ''sqlite3'')
                \<lparr>Major = 1, Minor = 2, Patch = 3, Revision = 4\<rparr>
                (fresh\<lparr>tables := [''version'' \<mapsto> empty_version_table]\<rparr>)))
       = \<lparr>Major = 1, Minor = 2, Patch = 3, Revision = 4\<rparr>"
proof -
  let ?v = "\<lparr>Major = 1, Minor = 2, Patch = 3, Revision = 4\<rparr> :: schemaVersion"
  have h: "tables (fresh\<lparr>tables := [''version'' \<mapsto> empty_version_table]\<rparr>) ''version''
             = Some empty_version_table"
    by simp
  have r: "uint (Major ?v) < 2 ^ 63" "uint (Minor ?v) < 2 ^ 63" "uint (Patch ?v) < 2 ^ 63"
    "uint (Revision ?v) < 2 ^ 63"
    by simp_all
  note t = insert_then_current [OF h r, of "''sqlite3''"]
  from t [THEN conjunct1] t [THEN conjunct2, THEN conjunct1] show ?thesis by simp
qed

section \<open>C7: the errors that currentSchemaVersion swallows\<close>

text \<open>
  C7 as stated says that the fallback after a failed four-column decode is the only
  place where an error is swallowed. On a store without a version table the query of
  \<open>currentSchemaVersion\<close> itself fails, no row is decoded, and the function returns
  the zero version: the error of the query is swallowed before any decode.
\<close>

theorem currentSchemaVersion_swallows_counterexample:
  "Query (engine_tx ''sqlite3'') sql_currentSchemaVersion [] fresh
     = Inl (SqlError (NoSuchTable ''version''))
   \<and> currentSchemaVersion (engine_tx ''sqlite3'') fresh = zeroVersion"
  by (simp add: currentSchemaVersion_def Query_statements stmt_defs engine_defs fresh_def
      zeroVersion_def)

text \<open>
  C7, amended. \<open>currentSchemaVersion\<close> returns a version and never an error. When
  its query fails, yields no row, or the row iteration reports an error, it returns the
  zero version. When the four-column decode of the first row succeeds, it returns the
  four decoded fields. When that decode fails, it decodes the row again into major,
  minor and patch only, ignores the error of this second decode as well, and reports
  revision as zero. The errors swallowed are thus those of the query, of the iteration
  and of both decodes.
\<close>

theorem currentSchemaVersion_degrades:
  "(Query tx sql_currentSchemaVersion [] db = Inl err \<longrightarrow>
      currentSchemaVersion tx db = zeroVersion)
   \<and> (Query tx sql_currentSchemaVersion [] db = Inr rows \<and> (Next rows = None \<or> Err rows \<noteq> None) \<longrightarrow>
      currentSchemaVersion tx db = zeroVersion)
   \<and> (Query tx sql_currentSchemaVersion [] db = Inr rows \<and> Next rows = Some row \<and> Err rows = None
        \<and> Scan row [0, 0, 0, 0] = (None, vs) \<longrightarrow>
      currentSchemaVersion tx db =
        \<lparr>Major = vs ! 0, Minor = vs ! 1, Patch = vs ! 2, Revision = vs ! 3\<rparr>)
   \<and> (Query tx sql_currentSchemaVersion [] db = Inr rows \<and> Next rows = Some row \<and> Err rows = None
        \<and> Scan row [0, 0, 0, 0] = (Some e, vs) \<longrightarrow>
      currentSchemaVersion tx db =
        \<lparr>Major = snd (Scan row (take 3 vs)) ! 0, Minor = snd (Scan row (take 3 vs)) ! 1,
         Patch = snd (Scan row (take 3 vs)) ! 2, Revision = 0\<rparr>)"
proof (intro conjI impI)
  assume "Query tx sql_currentSchemaVersion [] db = Inl err"
  then show "currentSchemaVersion tx db = zeroVersion"
    by (simp add: currentSchemaVersion_def zeroVersion_def)
next
  assume "Query tx sql_currentSchemaVersion [] db = Inr rows \<and> (Next rows = None \<or> Err rows \<noteq> None)"
  then show "currentSchemaVersion tx db = zeroVersion"
    by (cases "Next rows") (auto simp: currentSchemaVersion_def zeroVersion_def Let_def)
next
  assume "Query tx sql_currentSchemaVersion [] db = Inr rows \<and> Next rows = Some row \<and> Err rows = None
        \<and> Scan row [0, 0, 0, 0] = (None, vs)"
  then show "currentSchemaVersion tx db =
        \<lparr>Major = vs ! 0, Minor = vs ! 1, Patch = vs ! 2, Revision = vs ! 3\<rparr>"
    by (simp add: currentSchemaVersion_def Let_def)
next
  assume a: "Query tx sql_currentSchemaVersion [] db = Inr rows \<and> Next rows = Some row \<and> Err rows = None
        \<and> Scan row [0, 0, 0, 0] = (Some e, vs)"
  then have s: "Scan row [0, 0, 0, 0] = (Some e, vs)" by simp
  let ?ws = "snd (Scan row (take 3 vs))"
  from Scan4_failed [OF s] have d: "drop 3 vs = [0]" and l: "length ?ws = 3" by simp_all
  from l have "(?ws @ [0]) ! 0 = ?ws ! 0" "(?ws @ [0]) ! 1 = ?ws ! 1" "(?ws @ [0]) ! 2 = ?ws ! 2"
    "(?ws @ [0]) ! 3 = 0"
    by (simp_all add: nth_append)
  with a d show "currentSchemaVersion tx db =
        \<lparr>Major = ?ws ! 0, Minor = ?ws ! 1, Patch = ?ws ! 2, Revision = 0\<rparr>"
    by (simp add: currentSchemaVersion_def Let_def)
qed


theorem currentSchemaVersion_degrades_witness:
  "currentSchemaVersion (engine_tx ''sqlite3'') fresh = zeroVersion
   \<and> currentSchemaVersion (engine_tx ''sqlite3'') (fresh\<lparr>tables := [''version'' \<mapsto> empty_version_table]\<rparr>)
       = zeroVersion
   \<and> currentSchemaVersion (engine_tx ''sqlite3'') schema_store
       = \<lparr>Major = 0, Minor = 7, Patch = 0, Revision = 1\<rparr>
   \<and> currentSchemaVersion (engine_tx ''sqlite3'') legacy_store
       = \<lparr>Major = 0, Minor = 6, Patch = 0, Revision = 0\<rparr>"
proof -
  let ?tx = "engine_tx ''sqlite3''"
  have q1: "Query ?tx sql_currentSchemaVersion [] fresh = Inl (SqlError (NoSuchTable ''version''))"
    by (simp add: Query_statements stmt_defs engine_defs fresh_def)
  have q2: "Query ?tx sql_currentSchemaVersion []
              (fresh\<lparr>tables := [''version'' \<mapsto> empty_version_table]\<rparr>)
            = Inr \<lparr>pending = [], lasterr = None\<rparr>
            \<and> (Next \<lparr>pending = [], lasterr = None\<rparr> = None
                \<or> Err \<lparr>pending = [], lasterr = None\<rparr> \<noteq> None)"
    by (simp add: Query_statements stmt_defs engine_defs empty_version_table_def Next_def)
  have q3: "Query ?tx sql_currentSchemaVersion [] schema_store
              = Inr \<lparr>pending = [[IntV 0, IntV 7, IntV 0, IntV 1]], lasterr = None\<rparr>
            \<and> Next \<lparr>pending = [[IntV 0, IntV 7, IntV 0, IntV 1]], lasterr = None\<rparr>
                = Some [IntV 0, IntV 7, IntV 0, IntV 1]
            \<and> Err \<lparr>pending = [[IntV 0, IntV 7, IntV 0, IntV 1]], lasterr = None\<rparr> = None
            \<and> Scan [IntV 0, IntV 7, IntV 0, IntV 1] [0, 0, 0, 0] = (None, [0, 7, 0, 1])"
    by (simp add: Query_statements stmt_defs engine_defs schema_store_tables Next_def Err_def
        Scan_def empty_version_table_def)
  have q4: "Query ?tx sql_currentSchemaVersion [] legacy_store
              = Inr \<lparr>pending = [[IntV 0, IntV 6, IntV 0]], lasterr = None\<rparr>
            \<and> Next \<lparr>pending = [[IntV 0, IntV 6, IntV 0]], lasterr = None\<rparr>
                = Some [IntV 0, IntV 6, IntV 0]
            \<and> Err \<lparr>pending = [[IntV 0, IntV 6, IntV 0]], lasterr = None\<rparr> = None
            \<and> Scan [IntV 0, IntV 6, IntV 0] [0, 0, 0, 0]
                = (Some (ScanError ''sql: expected destination arguments in Scan''), [0, 0, 0, 0])"
    by (simp add: Query_statements stmt_defs engine_defs legacy_store_def Next_def Err_def
        Scan_def)
  have s4: "snd (Scan [IntV 0, IntV 6, IntV 0] [0, 0, 0]) = [0, 6, 0]"
    by (simp add: Scan_def)
  note t = currentSchemaVersion_degrades
  from t [THEN conjunct1, rule_format, OF q1]
    t [THEN conjunct2, THEN conjunct1, rule_format, OF q2]
    t [THEN conjunct2, THEN conjunct2, THEN conjunct1, rule_format, OF q3]
    t [THEN conjunct2, THEN conjunct2, THEN conjunct2, rule_format, OF q4]
  show ?thesis by (simp add: s4)
qed

section \<open>C8: the errors of OpenAt\<close>

text \<open>
  C8. For every path without a scheme: when \<open>os.Stat\<close> fails with an error that
  \<open>os.IsNotExist\<close> accepts, \<open>OpenAt\<close> returns \<open>DatabaseNotFoundError\<close> for the
  path; when it fails with any other error, \<open>DatabaseAccessError\<close> with the path and
  that error. When the existence check lets the path through and \<open>OpenDB\<close> fails,
  \<open>OpenAt\<close> returns \<open>DatabaseAccessError\<close> with the path and that error. For a path
  with a scheme the outcome of \<open>os.Stat\<close> has no influence on what \<open>OpenAt\<close> does.
\<close>

theorem OpenAt_errors:
  "(\<not> HasScheme path \<and> os_Stat sys path w = Some err \<and> IsNotExist err \<longrightarrow>
      OpenAt sys path w = (Inl (DatabaseNotFoundError path), w))
   \<and> (\<not> HasScheme path \<and> os_Stat sys path w = Some err \<and> \<not> IsNotExist err \<longrightarrow>
      OpenAt sys path w = (Inl (DatabaseAccessError path err), w))
   \<and> ((HasScheme path \<or> os_Stat sys path w = None) \<and> OpenDB sys path w = (Inl err, w1) \<longrightarrow>
      OpenAt sys path w = (Inl (DatabaseAccessError path err), w1))
   \<and> (HasScheme path \<longrightarrow> OpenAt sys path w = OpenAt (sys\<lparr>os_Stat := stat'\<rparr>) path w)"
proof (intro conjI impI)
  assume "HasScheme path"
  then show "OpenAt sys path w = OpenAt (sys\<lparr>os_Stat := stat'\<rparr>) path w"
    by (simp add: OpenAt_def OpenDB_def Let_def split: prod.splits sum.splits option.splits)
qed (auto simp: OpenAt_def Let_def)

theorem OpenAt_errors_witness:
  "OpenAt demo_sys ''/tmp/.tmsu/db'' [] = (Inl (DatabaseNotFoundError ''/tmp/.tmsu/db''), [])
   \<and> OpenAt (demo_sys\<lparr>os_Stat := \<lambda>p w. Some (PathError ''stat'' p EACCES)\<rparr>) ''/tmp/.tmsu/db'' []
       = (Inl (DatabaseAccessError ''/tmp/.tmsu/db'' (PathError ''stat'' ''/tmp/.tmsu/db'' EACCES)), [])
   \<and> OpenAt demo_sys ''pg://host/db'' []
       = (Inl (DatabaseAccessError ''pg://host/db'' (ErrorString ''sql: unknown driver'')), [])
   \<and> OpenAt demo_sys ''mysql://host/db'' []
       = OpenAt (demo_sys\<lparr>os_Stat := \<lambda>p w. None\<rparr>) ''mysql://host/db'' []"
proof -
  let ?p = "''/tmp/.tmsu/db''"
  let ?e = "PathError ''stat'' ?p EACCES"
  let ?sys2 = "demo_sys\<lparr>os_Stat := \<lambda>p w. Some (PathError ''stat'' p EACCES)\<rparr>"
  have n: "\<not> HasScheme ?p" by (simp add: scheme_eval)
  have s1: "HasScheme ''pg://host/db''" by (simp add: scheme_eval)
  have s2: "HasScheme ''mysql://host/db''" by (simp add: scheme_eval)
  have h1: "\<not> HasScheme ?p \<and> os_Stat demo_sys ?p [] = Some (PathError ''stat'' ?p ENOENT)
            \<and> IsNotExist (PathError ''stat'' ?p ENOENT)"
    using n by (simp add: demo_sys_def)
  have h2: "\<not> HasScheme ?p \<and> os_Stat ?sys2 ?p [] = Some ?e \<and> \<not> IsNotExist ?e"
    using n by simp
  have h3: "(HasScheme ''pg://host/db'' \<or> os_Stat demo_sys ''pg://host/db'' [] = None)
            \<and> OpenDB demo_sys ''pg://host/db'' [] = (Inl (ErrorString ''sql: unknown driver''), [])"
    using s1 by (simp add: OpenDB_def demo_sys_def) (simp add: scheme_eval)
  note t = OpenAt_errors
  from t [THEN conjunct1, rule_format, OF h1]
    t [THEN conjunct2, THEN conjunct1, rule_format, OF h2]
    t [THEN conjunct2, THEN conjunct2, THEN conjunct1, rule_format, OF h3]
    t [THEN conjunct2, THEN conjunct2, THEN conjunct2, rule_format, OF s2,
       of demo_sys "[]" "\<lambda>p w. None"]
  show ?thesis by simp
qed

section \<open>C9: a failing path does not stop the batch\<close>

lemma init_loop_steps:
  "init_loop sys options paths ws w =
     (ws @ concat (map (\<lambda>(p, w'). fst (init_path sys options p w'))
                       (zip paths (worlds_before sys options paths w))),
      fold (\<lambda>p w'. snd (init_path sys options p w')) paths w)"
  by (induction paths arbitrary: ws w) (auto split: prod.splits)

lemma length_worlds_before: "length (worlds_before sys options paths w) = length paths"
  by (induction paths arbitrary: w) auto

lemma init_path_warnings:
  "(init_error sys options p w = None \<longrightarrow> fst (init_path sys options p w) = [])
   \<and> (init_error sys options p w \<noteq> None \<longrightarrow>
        (\<exists>msg. fst (init_path sys options p w) = [p @ '': could not initialize database'' @ msg]))"
  by (auto simp: init_error_def init_path_def split: prod.splits option.splits)

text \<open>
  C9. Let \<open>paths\<close> be the list that \<open>initExec\<close> works on: the database path when
  it has a scheme, else the arguments, else the working directory. Whenever that list
  is determined (a path is given, or the working directory is known), \<open>initExec\<close>
  returns no error; it processes every path of the list, each in the world the paths
  before it left, whether or not they failed; and its warnings are those of the paths,
  in order: none for a path whose initialization meets no error, and exactly one for a
  path whose initialization fails, which starts with that path followed by
  \<open>: could not initialize database\<close>.
\<close>

theorem initExec_batch:
  assumes "paths = (if HasScheme databasePath then [databasePath]
                    else if args = [] then [wd] else args)"
    and "HasScheme databasePath \<or> args \<noteq> [] \<or> os_Getwd sys w = Inr wd"
  shows "initExec sys options args databasePath w =
       ((None, concat (map (\<lambda>(p, w'). fst (init_path sys options p w'))
                          (zip paths (worlds_before sys options paths w)))),
        fold (\<lambda>p w'. snd (init_path sys options p w')) paths w)
     \<and> length (worlds_before sys options paths w) = length paths
     \<and> (init_error sys options p w' = None \<longrightarrow> fst (init_path sys options p w') = [])
     \<and> (init_error sys options p w' \<noteq> None \<longrightarrow>
          (\<exists>msg. fst (init_path sys options p w')
                   = [p @ '': could not initialize database'' @ msg]))"
proof -
  have "initExec sys options args databasePath w =
          ((None, fst (init_loop sys options paths [] w)), snd (init_loop sys options paths [] w))"
    using assms by (auto simp: initExec_def split: prod.splits)
  then show ?thesis
    using init_path_warnings [of sys options p w']
    by (simp add: init_loop_steps length_worlds_before)
qed

theorem initExec_batch_witness:
  "initExec demo_sys Map.empty [''/a'', ''/ro'', ''/b''] ''/x/.tmsu/db'' []
     = ((None, [''/ro: could not initialize database: permission denied'']),
        [''/a/.tmsu/db'', ''/b/.tmsu/db''])
   \<and> init_error demo_sys Map.empty ''/ro'' [''/a/.tmsu/db''] \<noteq> None
   \<and> init_error demo_sys Map.empty ''/b'' [''/a/.tmsu/db''] = None"
proof -
  let ?paths = "[''/a'', ''/ro'', ''/b'']"
  have n: "\<not> HasScheme ''/x/.tmsu/db''" "\<not> HasScheme ''/a''" "\<not> HasScheme ''/ro''"
    "\<not> HasScheme ''/b''"
    by (simp_all add: scheme_eval)
  have h1: "?paths = (if HasScheme ''/x/.tmsu/db'' then [''/x/.tmsu/db'']
                      else if ?paths = [] then [''/home/u''] else ?paths)"
    using n by simp
  have h2: "HasScheme ''/x/.tmsu/db'' \<or> ?paths \<noteq> [] \<or> os_Getwd demo_sys [] = Inr ''/home/u''"
    by simp
  have p: "init_path demo_sys Map.empty ''/a'' w = ([], w @ [''/a/.tmsu/db''])"
    "init_path demo_sys Map.empty ''/ro'' w
       = ([''/ro: could not initialize database: permission denied''], w)"
    "init_path demo_sys Map.empty ''/b'' w = ([], w @ [''/b/.tmsu/db''])" for w
    using n
    by (simp_all add: init_path_def initializeDatabase_def insertRootPath_def demo_sys_def
        Let_def)
  have e: "init_error demo_sys Map.empty ''/ro'' [''/a/.tmsu/db''] \<noteq> None"
    "init_error demo_sys Map.empty ''/b'' [''/a/.tmsu/db''] = None"
    using n
    by (simp_all add: init_error_def initializeDatabase_def insertRootPath_def demo_sys_def
        Let_def)
  from initExec_batch [OF h1 h2, of Map.empty, THEN conjunct1] e
  show ?thesis by (simp add: p)
qed

section \<open>C10: a database path with a scheme overrides the arguments\<close>

text \<open>
  C10. When the database path has a scheme, \<open>initExec\<close> does the same whatever the
  positional arguments are: it initializes that one database and nothing else. When it
  has none and arguments are given, \<open>initExec\<close> runs its loop over the arguments.
\<close>

theorem initExec_scheme_ignores_args:
  "(HasScheme databasePath \<longrightarrow>
      initExec sys options args databasePath w = initExec sys options [] databasePath w
      \<and> initExec sys options args databasePath w =
          ((None, fst (init_path sys options databasePath w)),
           snd (init_path sys options databasePath w)))
   \<and> (\<not> HasScheme databasePath \<and> args \<noteq> [] \<longrightarrow>
      initExec sys options args databasePath w =
        ((None, fst (init_loop sys options args [] w)), snd (init_loop sys options args [] w)))"
  by (auto simp: initExec_def split: prod.splits)


theorem initExec_scheme_ignores_args_witness:
  "initExec demo_sys Map.empty [''/a'', ''/b''] ''mysql://host/db'' []
     = initExec demo_sys Map.empty [] ''mysql://host/db'' []
   \<and> initExec demo_sys Map.empty [''/a'', ''/b''] ''mysql://host/db'' []
     = ((None, []), [''mysql://host/db''])
   \<and> initExec demo_sys Map.empty [''/a'', ''/b''] ''/x/.tmsu/db'' []
     = ((None, []), [''/a/.tmsu/db'', ''/b/.tmsu/db''])"
proof -
  have s: "HasScheme ''mysql://host/db''" by (simp add: scheme_eval)
  have n: "\<not> HasScheme ''/x/.tmsu/db'' \<and> [''/a'', ''/b''] \<noteq> []" by (simp add: scheme_eval)
  have a: "\<not> HasScheme ''/a''" "\<not> HasScheme ''/b''" by (simp_all add: scheme_eval)
  have p: "init_path demo_sys Map.empty ''mysql://host/db'' [] = ([], [''mysql://host/db''])"
    using s by (simp add: init_path_def initializeDatabase_def insertRootPath_def demo_sys_def)
  have l: "init_loop demo_sys Map.empty [''/a'', ''/b''] [] []
             = ([], [''/a/.tmsu/db'', ''/b/.tmsu/db''])"
    using a
    by (simp add: init_path_def initializeDatabase_def insertRootPath_def demo_sys_def Let_def)
  note t = initExec_scheme_ignores_args
  from t [THEN conjunct1, rule_format, OF s, of demo_sys Map.empty "[''/a'', ''/b'']" "[]"]
    t [THEN conjunct2, rule_format, OF n, of demo_sys Map.empty "[]"]
  show ?thesis by (auto simp add: p l simp del: init_loop.simps)
qed

end
